theory Spec2Isabelle
  imports Complex_Main
begin

section \<open>Python strings\<close>

text \<open>
  A Python \<open>str\<close> is a sequence of Unicode code points. It is modelled as the list of
  its code points (natural numbers, written in hexadecimal as in \<open>U+043F\<close>), so that
  \<open>len\<close>, \<open>in\<close>, \<open>split\<close> and \<open>strip\<close> count and compare code points as Python does.
  String constants of the source are the code point lists of the source literals; a
  transliteration follows each Cyrillic constant.
\<close>

type_synonym pystr = "nat list"

text \<open>\<open>s.startswith(k)\<close>.\<close>

fun starts_with :: "pystr \<Rightarrow> pystr \<Rightarrow> bool" where
  "starts_with [] s = True"
| "starts_with (k # ks) [] = False"
| "starts_with (k # ks) (c # cs) = (k = c \<and> starts_with ks cs)"

text \<open>\<open>k in s\<close> on strings: \<open>k\<close> occurs in \<open>s\<close> as a contiguous substring.\<close>

fun str_contains :: "pystr \<Rightarrow> pystr \<Rightarrow> bool" where
  "str_contains k [] = (k = [])"
| "str_contains k (c # cs) = (starts_with k (c # cs) \<or> str_contains k cs)"

text \<open>
  \<open>str.isspace\<close> on one code point: the white space of the Unicode character database
  (bidirectional class WS, B or S, or category Zs).
\<close>

definition py_isspace :: "nat \<Rightarrow> bool" where
  "py_isspace c =
     ((0x9 \<le> c \<and> c \<le> 0xD) \<or> (0x1C \<le> c \<and> c \<le> 0x20) \<or> c = 0x85 \<or> c = 0xA0 \<or>
      c = 0x1680 \<or> (0x2000 \<le> c \<and> c \<le> 0x200A) \<or> c = 0x2028 \<or> c = 0x2029 \<or>
      c = 0x202F \<or> c = 0x205F \<or> c = 0x3000)"

text \<open>
  \<open>s.split()\<close> without a separator: the maximal runs of non-space code points, in order;
  no empty token. \<open>split_from cur s\<close> scans \<open>s\<close> with \<open>cur\<close> the token read so far.
\<close>

fun split_from :: "pystr \<Rightarrow> pystr \<Rightarrow> pystr list" where
  "split_from cur [] = (if cur = [] then [] else [cur])"
| "split_from cur (c # cs) =
     (if py_isspace c
      then (if cur = [] then split_from [] cs else cur # split_from [] cs)
      else split_from (cur @ [c]) cs)"

definition py_split :: "pystr \<Rightarrow> pystr list" where
  "py_split s = split_from [] s"

text \<open>
  \<open>str.lower\<close> is the Unicode lower-casing of the Python runtime; the classifier takes it
  as a parameter, and its theorems hold for every such function. \<open>lower_basic\<close> is
  \<open>str.lower\<close> on text of the Basic Latin and the Cyrillic block (\<open>U+0400\<close> to \<open>U+044F\<close>),
  the alphabets of the questions; it is the instance used on concrete questions.
\<close>

definition lower_cp :: "nat \<Rightarrow> nat" where
  "lower_cp c =
     (if 0x41 \<le> c \<and> c \<le> 0x5A then c + 0x20
      else if 0x410 \<le> c \<and> c \<le> 0x42F then c + 0x20
      else if 0x400 \<le> c \<and> c \<le> 0x40F then c + 0x50
      else c)"

definition lower_basic :: "pystr \<Rightarrow> pystr" where
  "lower_basic s = map lower_cp s"

section \<open>Relevance classifier (\<open>AIAssistant.is_relevant_question\<close>)\<close>

definition irrelevant_keywords :: "pystr list" where
  "irrelevant_keywords =
    [[0x43F, 0x43E, 0x433, 0x43E, 0x434, 0x430],
     [0x441, 0x43F, 0x43E, 0x440, 0x442],
     [0x43F, 0x43E, 0x43B, 0x438, 0x442, 0x438, 0x43A, 0x430],
     [0x43D, 0x43E, 0x432, 0x43E, 0x441, 0x442, 0x438],
     [0x440, 0x435, 0x446, 0x435, 0x43F, 0x442],
     [0x444, 0x438, 0x43B, 0x44C, 0x43C],
     [0x43C, 0x443, 0x437, 0x44B, 0x43A, 0x430],
     [0x438, 0x433, 0x440, 0x430],
     [0x430, 0x432, 0x442, 0x43E, 0x43C, 0x43E, 0x431, 0x438, 0x43B, 0x44C],
     [0x43F, 0x443, 0x442, 0x435, 0x448, 0x435, 0x441, 0x442, 0x432, 0x438, 0x435],
     [0x437, 0x434, 0x43E, 0x440, 0x43E, 0x432, 0x44C, 0x435],
     [0x444, 0x443, 0x442, 0x431, 0x43E, 0x43B],
     [0x431, 0x43E, 0x440, 0x449],
     [0x43F, 0x440, 0x438, 0x433, 0x43E, 0x442, 0x43E, 0x432, 0x438, 0x442, 0x44C],
     [0x43A, 0x443, 0x43F, 0x438, 0x442, 0x44C],
     [0x442, 0x435, 0x43B, 0x435, 0x444, 0x43E, 0x43D]]"
  \<comment> \<open>pogoda, sport, politika, novosti, retsept, film, muzyka, igra, avtomobil, puteshestvie, zdorove, futbol, borshch, prigotovit, kupit, telefon\<close>
definition relevant_keywords :: "pystr list" where
  "relevant_keywords =
    [[0x438, 0x442, 0x43C, 0x43E],
     [0x43C, 0x430, 0x433, 0x438, 0x441, 0x442, 0x440],
     [0x43F, 0x43E, 0x441, 0x442, 0x443, 0x43F, 0x43B, 0x435, 0x43D, 0x438, 0x435],
     [0x43E, 0x431, 0x443, 0x447, 0x435, 0x43D, 0x438, 0x435],
     [0x43F, 0x440, 0x43E, 0x433, 0x440, 0x430, 0x43C, 0x43C, 0x430],
     [0x43F, 0x440, 0x43E, 0x433, 0x440, 0x430, 0x43C, 0x43C, 0x44B],
     [0x438, 0x441, 0x43A, 0x443, 0x441, 0x441, 0x442, 0x432, 0x435, 0x43D, 0x43D, 0x44B,
       0x439, 0x20, 0x438, 0x43D, 0x442, 0x435, 0x43B, 0x43B, 0x435, 0x43A, 0x442],
     [0x43C, 0x430, 0x448, 0x438, 0x43D, 0x43D, 0x43E, 0x435, 0x20, 0x43E, 0x431, 0x443,
       0x447, 0x435, 0x43D, 0x438, 0x435],
     [0x61, 0x69],
     [0x6D, 0x6C],
     [0x43F, 0x440, 0x43E, 0x434, 0x443, 0x43A, 0x442],
     [0x43A, 0x430, 0x440, 0x44C, 0x435, 0x440, 0x430],
     [0x44D, 0x43A, 0x437, 0x430, 0x43C, 0x435, 0x43D],
     [0x434, 0x43E, 0x43A, 0x443, 0x43C, 0x435, 0x43D, 0x442, 0x44B],
     [0x431, 0x44E, 0x434, 0x436, 0x435, 0x442],
     [0x43A, 0x43E, 0x43D, 0x442, 0x440, 0x430, 0x43A, 0x442],
     [0x441, 0x442, 0x438, 0x43F, 0x435, 0x43D, 0x434, 0x438, 0x44F],
     [0x43E, 0x431, 0x449, 0x435, 0x436, 0x438, 0x442, 0x438, 0x435],
     [0x443, 0x43D, 0x438, 0x432, 0x435, 0x440, 0x441, 0x438, 0x442, 0x435, 0x442],
     [0x432, 0x443, 0x437],
     [0x43E, 0x442, 0x43B, 0x438, 0x447, 0x430, 0x44E, 0x442, 0x441, 0x44F],
     [0x440, 0x430, 0x437, 0x43D, 0x438, 0x446, 0x430],
     [0x441, 0x440, 0x430, 0x432, 0x43D, 0x438, 0x442, 0x44C],
     [0x43F, 0x43E, 0x434, 0x445, 0x43E, 0x434, 0x438, 0x442],
     [0x442, 0x440, 0x435, 0x431, 0x43E, 0x432, 0x430, 0x43D, 0x438, 0x44F],
     [0x441, 0x442, 0x43E, 0x438, 0x43C, 0x43E, 0x441, 0x442, 0x44C],
     [0x441, 0x442, 0x43E, 0x438, 0x442],
     [0x43F, 0x435, 0x440, 0x441, 0x43F, 0x435, 0x43A, 0x442, 0x438, 0x432, 0x44B],
     [0x434, 0x43E, 0x441, 0x442, 0x443, 0x43F, 0x43D, 0x44B]]"
  \<comment> \<open>itmo, magistr, postuplenie, obuchenie, programma, programmy, iskusstvennyj intellekt, mashinnoe obuchenie, ai, ml, produkt, karera, ekzamen, dokumenty, byudzhet, kontrakt, stipendiya, obshchezhitie, universitet, vuz, otlichayutsya, raznitsa, sravnit, podkhodit, trebovaniya, stoimost, stoit, perspektivy, dostupny\<close>

text \<open>
  The loop \<open>for keyword in keywords: if keyword in question_lower: return ...\<close>:
  whether the loop returns at some keyword.
\<close>

fun any_keyword_in :: "pystr list \<Rightarrow> pystr \<Rightarrow> bool" where
  "any_keyword_in [] s = False"
| "any_keyword_in (k # ks) s = (if str_contains k s then True else any_keyword_in ks s)"

definition is_relevant_question :: "(pystr \<Rightarrow> pystr) \<Rightarrow> pystr \<Rightarrow> bool" where
  "is_relevant_question lower question =
     (let question_lower = lower question in
      if any_keyword_in irrelevant_keywords question_lower then False
      else if any_keyword_in relevant_keywords question_lower then True
      else if length (py_split question_lower) \<le> 2 then False
      else if length (py_split question_lower) > 3 then True
      else False)"

section \<open>More string operations\<close>

text \<open>A source literal of ASCII characters, as code points.\<close>

definition ascii :: "string \<Rightarrow> pystr" where
  "ascii s = map of_char s"

text \<open>\<open>s.strip()\<close>: leading and trailing white space removed.\<close>

definition py_strip :: "pystr \<Rightarrow> pystr" where
  "py_strip s = rev (dropWhile py_isspace (rev (dropWhile py_isspace s)))"

text \<open>\<open>sep.join(xs)\<close> on a list of strings.\<close>

fun str_join :: "pystr \<Rightarrow> pystr list \<Rightarrow> pystr" where
  "str_join sep [] = []"
| "str_join sep [x] = x"
| "str_join sep (x # y # ys) = x @ sep @ str_join sep (y # ys)"

text \<open>\<open>str(i)\<close> for an integer: decimal digits, with a minus sign.\<close>

fun digits :: "nat \<Rightarrow> pystr" where
  "digits n = (if n < 10 then [0x30 + n] else digits (n div 10) @ [0x30 + n mod 10])"

definition int_str :: "int \<Rightarrow> pystr" where
  "int_str i = (if i < 0 then 0x2D # digits (nat (- i)) else digits (nat i))"

section \<open>Python values and exceptions\<close>

text \<open>
  The values a JSON document denotes in Python: what \<open>json.loads\<close> returns and what the
  \<open>list\<close> and \<open>dict\<close> fields of \<open>Program\<close> and \<open>UserProfile\<close> hold. A \<open>dict\<close> is the list
  of its items in insertion order, with string keys. Floating point numbers are left out.
\<close>

datatype pyval =
    PNone
  | PBool bool
  | PInt int
  | PStr pystr
  | PList "pyval list"
  | PDict "(pystr \<times> pyval) list"

text \<open>
  Exceptions are values: a computation that can raise returns \<open>exn + 'a\<close>, with \<open>Inl\<close> the
  exception. Every \<open>except Exception\<close> of the source catches all of them.
\<close>

datatype exn =
    TypeError
  | AttributeError
  | IndexError
  | JSONDecodeError
  | OperationalError
  | APIError

text \<open>
  The exceptions that derive from \<open>BaseException\<close> and not from \<open>Exception\<close>. An
  \<open>except Exception\<close> does not catch them. The model lets the one blocking call of the
  pipeline, the request to the language model, raise them.
\<close>

datatype interrupt =
    KeyboardInterrupt
  | SystemExit

text \<open>
  What a call that can also be interrupted does: it returns a value, raises an exception
  of class \<open>Exception\<close>, or raises one outside that class.
\<close>

datatype 'a outcome =
    Returns 'a
  | Raises exn
  | Interrupts interrupt

text \<open>Sequencing: the second step runs on the value of the first unless the first raised.\<close>

definition and_then :: "exn + 'a \<Rightarrow> ('a \<Rightarrow> exn + 'b) \<Rightarrow> exn + 'b" where
  "and_then m f = (case m of Inl e \<Rightarrow> Inl e | Inr x \<Rightarrow> f x)"

definition raised :: "exn + 'a \<Rightarrow> bool" where
  "raised m = (case m of Inl e \<Rightarrow> True | Inr x \<Rightarrow> False)"


section \<open>The language model and the runtime\<close>

text \<open>
  One request of \<open>client.chat.completions.create\<close> with the keyword arguments of the source,
  and its response: for each element of \<open>response.choices\<close>, its \<open>message.content\<close>, which
  the API may leave \<open>None\<close>.
\<close>

record chat_message =
  role :: pystr
  content :: pystr

record chat_request =
  model :: pystr
  messages :: "chat_message list"
  max_tokens :: nat
  temperature :: rat

type_synonym chat_response = "pystr option list"

text \<open>
  What the code takes from outside the repository: the library functions \<open>str.lower\<close>,
  \<open>repr\<close> (used by \<open>str\<close> on a list or a dict), \<open>json.dumps(_, ensure_ascii=False)\<close> and
  \<open>json.loads\<close>; the language model behind the OpenAI client, which answers a request,
  raises, or is interrupted; \<open>datetime.now().isoformat()\<close>; and \<open>settings.openai_model\<close>. The functions of
  the model take them as a parameter, and the theorems hold for every choice of them.
\<close>

record runtime =
  str_lower :: "pystr \<Rightarrow> pystr"
  py_repr :: "pyval \<Rightarrow> pystr"
  json_dumps :: "pyval \<Rightarrow> pystr"
  json_loads :: "pystr \<Rightarrow> exn + pyval"
  chat_create :: "chat_request \<Rightarrow> chat_response outcome"
  now_isoformat :: pystr
  openai_model :: pystr

section \<open>Dynamic operations on Python values\<close>

text \<open>\<open>str(v)\<close>, which is what an f-string field \<open>{v}\<close> inserts.\<close>

definition py_str :: "runtime \<Rightarrow> pyval \<Rightarrow> pystr" where
  "py_str rt v =
     (case v of
        PNone \<Rightarrow> ascii ''None''
      | PBool b \<Rightarrow> (if b then ascii ''True'' else ascii ''False'')
      | PInt i \<Rightarrow> int_str i
      | PStr s \<Rightarrow> s
      | PList xs \<Rightarrow> py_repr rt v
      | PDict d \<Rightarrow> py_repr rt v)"

text \<open>Truth value testing, as in \<open>if not v\<close> and \<open>v or w\<close>.\<close>

fun truthy :: "pyval \<Rightarrow> bool" where
  "truthy PNone = False"
| "truthy (PBool b) = b"
| "truthy (PInt i) = (i \<noteq> 0)"
| "truthy (PStr s) = (s \<noteq> [])"
| "truthy (PList xs) = (xs \<noteq> [])"
| "truthy (PDict d) = (d \<noteq> [])"

text \<open>
  \<open>for x in v\<close>: the elements of a list, the characters of a string, the keys of a dict;
  anything else is not iterable.
\<close>

fun py_iter :: "pyval \<Rightarrow> exn + pyval list" where
  "py_iter (PList xs) = Inr xs"
| "py_iter (PStr s) = Inr (map (\<lambda>c. PStr [c]) s)"
| "py_iter (PDict d) = Inr (map (\<lambda>kv. PStr (fst kv)) d)"
| "py_iter v = Inl TypeError"

text \<open>\<open>v.get(k, default)\<close>: only a dict has the method.\<close>

fun py_get :: "pyval \<Rightarrow> pystr \<Rightarrow> pyval \<Rightarrow> exn + pyval" where
  "py_get (PDict d) k dflt = Inr (case map_of d k of Some v \<Rightarrow> v | None \<Rightarrow> dflt)"
| "py_get v k dflt = Inl AttributeError"

text \<open>\<open>v[:n]\<close>: a list or a string can be sliced.\<close>

fun py_slice_to :: "nat \<Rightarrow> pyval \<Rightarrow> exn + pyval" where
  "py_slice_to n (PList xs) = Inr (PList (take n xs))"
| "py_slice_to n (PStr s) = Inr (PStr (take n s))"
| "py_slice_to n v = Inl TypeError"

text \<open>\<open>sep.join(v)\<close>: \<open>v\<close> must be iterable and every item a string.\<close>

fun expect_strs :: "pyval list \<Rightarrow> exn + pystr list" where
  "expect_strs [] = Inr []"
| "expect_strs (PStr s # vs) = and_then (expect_strs vs) (\<lambda>ss. Inr (s # ss))"
| "expect_strs (v # vs) = Inl TypeError"

definition py_join :: "pystr \<Rightarrow> pyval \<Rightarrow> exn + pystr" where
  "py_join sep v =
     and_then (py_iter v) (\<lambda>items.
     and_then (expect_strs items) (\<lambda>strs. Inr (str_join sep strs)))"

section \<open>Records of the data model (\<open>models/database.py\<close>)\<close>

text \<open>
  The dataclasses \<open>Program\<close> and \<open>UserProfile\<close>. The fields declared \<open>str\<close> are strings; the
  fields declared \<open>list[dict]\<close>, \<open>list[str]\<close> and \<open>dict\<close> hold what \<open>json.loads\<close> returned,
  which Python does not check against the annotation. The time stamps of \<open>UserProfile\<close>
  are named \<open>profile_created_at\<close> and \<open>profile_updated_at\<close> here.
\<close>

record program =
  name :: pystr
  url :: pystr
  institute :: pystr
  duration :: pystr
  language :: pystr
  cost :: pystr
  description :: pystr
  directions :: pyval
  career_prospects :: pyval
  partners :: pyval
  team :: pyval
  admission_ways :: pyval
  faq :: pyval
  exam_dates :: pyval
  created_at :: pystr
  updated_at :: pystr

record user_profile =
  user_id :: int
  username :: pystr
  background :: pyval
  interests :: pyval
  technical_skills :: pyval
  career_goals :: pyval
  preferred_program :: "pystr option"
  profile_created_at :: pystr
  profile_updated_at :: pystr

section \<open>The record store (\<open>models/database.py\<close>, class \<open>Database\<close>)\<close>

text \<open>
  A row of a table is the tuple that \<open>SELECT *\<close> returns: the columns in the order of
  \<open>CREATE TABLE\<close>, so that \<open>row[k]\<close> is the component \<open>k\<close>, counted from 0. The columns
  bound from \<open>str\<close> values hold strings (the JSON columns hold the document's text), the
  keys hold integers and \<open>preferred_program\<close> holds a string or \<open>NULL\<close>.
\<close>

type_synonym programs_row =
  "int \<times> pystr \<times> pystr \<times> pystr \<times> pystr \<times> pystr \<times> pystr \<times> pystr \<times> pystr \<times>
   pystr \<times> pystr \<times> pystr \<times> pystr \<times> pystr \<times> pystr \<times> pystr \<times> pystr"

type_synonym user_profiles_row =
  "int \<times> pystr \<times> pystr \<times> pystr \<times> pystr \<times> pystr \<times> pystr option \<times> pystr \<times> pystr"

type_synonym conversations_row =
  "int \<times> int \<times> pystr \<times> pystr \<times> pystr"

text \<open>
  The database file: each table as the list of its rows in \<open>rowid\<close> order, which is the
  order of \<open>SELECT *\<close>; for the two \<open>AUTOINCREMENT\<close> tables the largest key ever used;
  and \<open>faults\<close>, which says of each coming use of the engine (one
  \<open>with sqlite3.connect(...)\<close> block) whether \<open>sqlite3\<close> raises in it. A block that
  raises leaves the tables as they were. When the list is used up the engine works.
\<close>

record database =
  programs_tbl :: "programs_row list"
  programs_seq :: int
  user_profiles_tbl :: "user_profiles_row list"
  conversations_tbl :: "conversations_row list"
  conversations_seq :: int
  faults :: "bool list"

text \<open>The database after \<open>init_database\<close> on a new file.\<close>

definition init_database :: database where
  "init_database =
     \<lparr>programs_tbl = [], programs_seq = 0, user_profiles_tbl = [],
      conversations_tbl = [], conversations_seq = 0, faults = []\<rparr>"

text \<open>Entering a \<open>with sqlite3.connect\<close> block: whether it runs without an error.\<close>

definition sqlite_connect :: "database \<Rightarrow> bool \<times> database" where
  "sqlite_connect db =
     (case faults db of
        [] \<Rightarrow> (True, db)
      | f # fs \<Rightarrow> (\<not> f, db\<lparr>faults := fs\<rparr>))"

text \<open>Whether the use number \<open>k\<close> of the engine from now on, counted from 0, raises.\<close>

definition engine_fails_at :: "database \<Rightarrow> nat \<Rightarrow> bool" where
  "engine_fails_at db k = (k < length (faults db) \<and> faults db ! k)"

definition row_name :: "programs_row \<Rightarrow> pystr" where
  "row_name row = fst (snd row)"

text \<open>
  \<open>save_program\<close>. \<open>INSERT OR REPLACE\<close> deletes the row that holds the same
  \<open>name\<close> (the column is \<open>UNIQUE\<close>) and inserts the new row under a fresh key.
\<close>

definition save_program :: "runtime \<Rightarrow> database \<Rightarrow> program \<Rightarrow> bool \<times> database" where
  "save_program rt db p =
     (case sqlite_connect db of
        (False, db') \<Rightarrow> (False, db')
      | (True, db') \<Rightarrow>
          (let rid = programs_seq db' + 1;
               row = (rid, name p, url p, institute p, duration p, language p, cost p,
                      description p,
                      json_dumps rt (directions p),
                      json_dumps rt (career_prospects p),
                      json_dumps rt (partners p),
                      json_dumps rt (team p),
                      json_dumps rt (admission_ways p),
                      json_dumps rt (faq p),
                      json_dumps rt (exam_dates p),
                      created_at p, updated_at p)
           in (True, db'\<lparr>programs_tbl :=
                             filter (\<lambda>r. row_name r \<noteq> name p) (programs_tbl db') @ [row],
                           programs_seq := rid\<rparr>)))"

text \<open>The \<open>Program(name=row[1], ..., updated_at=row[16])\<close> of the two readers.\<close>

definition row_to_program :: "runtime \<Rightarrow> programs_row \<Rightarrow> exn + program" where
  "row_to_program rt row =
     (case row of
        (c0, c1, c2, c3, c4, c5, c6, c7, c8, c9, c10, c11, c12, c13, c14, c15, c16) \<Rightarrow>
          and_then (json_loads rt c8) (\<lambda>v8.
          and_then (json_loads rt c9) (\<lambda>v9.
          and_then (json_loads rt c10) (\<lambda>v10.
          and_then (json_loads rt c11) (\<lambda>v11.
          and_then (json_loads rt c12) (\<lambda>v12.
          and_then (json_loads rt c13) (\<lambda>v13.
          and_then (json_loads rt c14) (\<lambda>v14.
            Inr \<lparr>name = c1, url = c2, institute = c3, duration = c4, language = c5,
                 cost = c6, description = c7, directions = v8, career_prospects = v9,
                 partners = v10, team = v11, admission_ways = v12, faq = v13,
                 exam_dates = v14, created_at = c15, updated_at = c16\<rparr>))))))))"

text \<open>\<open>get_program\<close>: the first row of that name, if any; an exception gives \<open>None\<close>.\<close>

definition get_program :: "runtime \<Rightarrow> database \<Rightarrow> pystr \<Rightarrow> program option \<times> database" where
  "get_program rt db nm =
     (case sqlite_connect db of
        (False, db') \<Rightarrow> (None, db')
      | (True, db') \<Rightarrow>
          (case filter (\<lambda>r. row_name r = nm) (programs_tbl db') of
             [] \<Rightarrow> (None, db')
           | row # rest \<Rightarrow>
               (case row_to_program rt row of
                  Inl e \<Rightarrow> (None, db')
                | Inr p \<Rightarrow> (Some p, db'))))"

text \<open>
  \<open>get_all_programs\<close>: the \<open>try\<close> is around the whole loop, so an exception at one row
  ends the loop and the programs appended so far are returned.
\<close>

fun programs_loop :: "runtime \<Rightarrow> program list \<Rightarrow> programs_row list \<Rightarrow> program list" where
  "programs_loop rt programs [] = programs"
| "programs_loop rt programs (row # rows) =
     (case row_to_program rt row of
        Inl e \<Rightarrow> programs
      | Inr p \<Rightarrow> programs_loop rt (programs @ [p]) rows)"

definition get_all_programs :: "runtime \<Rightarrow> database \<Rightarrow> program list \<times> database" where
  "get_all_programs rt db =
     (case sqlite_connect db of
        (False, db') \<Rightarrow> ([], db')
      | (True, db') \<Rightarrow> (programs_loop rt [] (programs_tbl db'), db'))"

text \<open>\<open>json.loads(row[k]) if row[k] else default\<close>.\<close>

definition loads_or :: "runtime \<Rightarrow> pystr \<Rightarrow> pyval \<Rightarrow> exn + pyval" where
  "loads_or rt txt dflt = (if txt \<noteq> [] then json_loads rt txt else Inr dflt)"

definition row_to_profile :: "runtime \<Rightarrow> user_profiles_row \<Rightarrow> exn + user_profile" where
  "row_to_profile rt row =
     (case row of
        (c0, c1, c2, c3, c4, c5, c6, c7, c8) \<Rightarrow>
          and_then (loads_or rt c2 (PDict [])) (\<lambda>v2.
          and_then (loads_or rt c3 (PList [])) (\<lambda>v3.
          and_then (loads_or rt c4 (PList [])) (\<lambda>v4.
          and_then (loads_or rt c5 (PList [])) (\<lambda>v5.
            Inr \<lparr>user_id = c0, username = c1, background = v2, interests = v3,
                 technical_skills = v4, career_goals = v5, preferred_program = c6,
                 profile_created_at = c7, profile_updated_at = c8\<rparr>)))))"

definition get_user_profile ::
  "runtime \<Rightarrow> database \<Rightarrow> int \<Rightarrow> user_profile option \<times> database" where
  "get_user_profile rt db uid =
     (case sqlite_connect db of
        (False, db') \<Rightarrow> (None, db')
      | (True, db') \<Rightarrow>
          (case filter (\<lambda>r. fst r = uid) (user_profiles_tbl db') of
             [] \<Rightarrow> (None, db')
           | row # rest \<Rightarrow>
               (case row_to_profile rt row of
                  Inl e \<Rightarrow> (None, db')
                | Inr up \<Rightarrow> (Some up, db'))))"

text \<open>
  \<open>save_conversation\<close>: a plain \<open>INSERT\<close>. (SQLite does not enforce the foreign key
  unless the connection asks for it, and this one does not.)
\<close>

definition save_conversation ::
  "database \<Rightarrow> int \<Rightarrow> pystr \<Rightarrow> pystr \<Rightarrow> pystr \<Rightarrow> bool \<times> database" where
  "save_conversation db uid message response timestamp =
     (case sqlite_connect db of
        (False, db') \<Rightarrow> (False, db')
      | (True, db') \<Rightarrow>
          (let rid = conversations_seq db' + 1
           in (True, db'\<lparr>conversations_tbl :=
                             conversations_tbl db' @ [(rid, uid, message, response, timestamp)],
                           conversations_seq := rid\<rparr>)))"

subsection \<open>Notions for the round trip\<close>

text \<open>
  \<open>json_round_trips\<close>: \<open>json.loads\<close> gives back each of the seven structured fields of a
  program from the text that \<open>json.dumps\<close> wrote for it. \<open>program_row\<close> is the row that
  \<open>save_program\<close> inserts under the key \<open>rid\<close>. A row is \<open>readable\<close> when the readers
  build a program from it without an exception.
\<close>

definition json_round_trips :: "runtime \<Rightarrow> program \<Rightarrow> bool" where
  "json_round_trips rt p =
     (json_loads rt (json_dumps rt (directions p)) = Inr (directions p) \<and>
      json_loads rt (json_dumps rt (career_prospects p)) = Inr (career_prospects p) \<and>
      json_loads rt (json_dumps rt (partners p)) = Inr (partners p) \<and>
      json_loads rt (json_dumps rt (team p)) = Inr (team p) \<and>
      json_loads rt (json_dumps rt (admission_ways p)) = Inr (admission_ways p) \<and>
      json_loads rt (json_dumps rt (faq p)) = Inr (faq p) \<and>
      json_loads rt (json_dumps rt (exam_dates p)) = Inr (exam_dates p))"

definition program_row :: "runtime \<Rightarrow> int \<Rightarrow> program \<Rightarrow> programs_row" where
  "program_row rt rid p =
     (rid, name p, url p, institute p, duration p, language p, cost p, description p,
      json_dumps rt (directions p), json_dumps rt (career_prospects p),
      json_dumps rt (partners p), json_dumps rt (team p), json_dumps rt (admission_ways p),
      json_dumps rt (faq p), json_dumps rt (exam_dates p), created_at p, updated_at p)"

definition readable :: "runtime \<Rightarrow> programs_row \<Rightarrow> bool" where
  "readable rt row = (\<not> raised (row_to_program rt row))"

section \<open>Context serializer (\<open>utils/ai_assistant.py\<close>)\<close>

subsection \<open>String constants of the source\<close>

definition system_prompt :: pystr where
  "system_prompt =
     [0xA, 0x422, 0x44B, 0x20, 0x2D, 0x20, 0x44D, 0x43A, 0x441, 0x43F, 0x435, 0x440, 0x442,
      0x2D, 0x43A, 0x43E, 0x43D, 0x441, 0x443, 0x43B, 0x44C, 0x442, 0x430, 0x43D, 0x442, 0x20,
      0x43F, 0x43E, 0x20, 0x43C, 0x430, 0x433, 0x438, 0x441, 0x442, 0x435, 0x440, 0x441, 0x43A,
      0x438, 0x43C, 0x20, 0x43F, 0x440, 0x43E, 0x433, 0x440, 0x430, 0x43C, 0x43C, 0x430, 0x43C,
      0x20, 0x418, 0x422, 0x41C, 0x41E, 0x20, 0x432, 0x20, 0x43E, 0x431, 0x43B, 0x430, 0x441,
      0x442, 0x438, 0x20, 0x438, 0x441, 0x43A, 0x443, 0x441, 0x441, 0x442, 0x432, 0x435, 0x43D,
      0x43D, 0x43E, 0x433, 0x43E, 0x20, 0x438, 0x43D, 0x442, 0x435, 0x43B, 0x43B, 0x435, 0x43A,
      0x442, 0x430, 0x2E, 0xA, 0x422, 0x432, 0x43E, 0x44F, 0x20, 0x437, 0x430, 0x434, 0x430,
      0x447, 0x430, 0x20, 0x2D, 0x20, 0x43F, 0x43E, 0x43C, 0x43E, 0x447, 0x44C, 0x20, 0x430,
      0x431, 0x438, 0x442, 0x443, 0x440, 0x438, 0x435, 0x43D, 0x442, 0x430, 0x43C, 0x20, 0x432,
      0x44B, 0x431, 0x440, 0x430, 0x442, 0x44C, 0x20, 0x43F, 0x43E, 0x434, 0x445, 0x43E, 0x434,
      0x44F, 0x449, 0x443, 0x44E, 0x20, 0x43F, 0x440, 0x43E, 0x433, 0x440, 0x430, 0x43C, 0x43C,
      0x443, 0x20, 0x438, 0x20, 0x441, 0x43F, 0x43B, 0x430, 0x43D, 0x438, 0x440, 0x43E, 0x432,
      0x430, 0x442, 0x44C, 0x20, 0x43E, 0x431, 0x443, 0x447, 0x435, 0x43D, 0x438, 0x435, 0x2E,
      0xA, 0xA, 0x423, 0x20, 0x442, 0x435, 0x431, 0x44F, 0x20, 0x435, 0x441, 0x442, 0x44C,
      0x20, 0x434, 0x43E, 0x441, 0x442, 0x443, 0x43F, 0x20, 0x43A, 0x20, 0x438, 0x43D, 0x444,
      0x43E, 0x440, 0x43C, 0x430, 0x446, 0x438, 0x438, 0x20, 0x43E, 0x20, 0x434, 0x432, 0x443,
      0x445, 0x20, 0x43F, 0x440, 0x43E, 0x433, 0x440, 0x430, 0x43C, 0x43C, 0x430, 0x445, 0x3A,
      0xA, 0x31, 0x2E, 0x20, 0x22, 0x418, 0x441, 0x43A, 0x443, 0x441, 0x441, 0x442, 0x432,
      0x435, 0x43D, 0x43D, 0x44B, 0x439, 0x20, 0x438, 0x43D, 0x442, 0x435, 0x43B, 0x43B, 0x435,
      0x43A, 0x442, 0x22, 0x20, 0x2D, 0x20, 0x442, 0x435, 0x445, 0x43D, 0x438, 0x447, 0x435,
      0x441, 0x43A, 0x430, 0x44F, 0x20, 0x43F, 0x440, 0x43E, 0x433, 0x440, 0x430, 0x43C, 0x43C,
      0x430, 0x20, 0x441, 0x20, 0x444, 0x43E, 0x43A, 0x443, 0x441, 0x43E, 0x43C, 0x20, 0x43D,
      0x430, 0x20, 0x4D, 0x4C, 0x20, 0x45, 0x6E, 0x67, 0x69, 0x6E, 0x65, 0x65, 0x72, 0x69,
      0x6E, 0x67, 0x2C, 0x20, 0x44, 0x61, 0x74, 0x61, 0x20, 0x45, 0x6E, 0x67, 0x69, 0x6E, 0x65,
      0x65, 0x72, 0x69, 0x6E, 0x67, 0x2C, 0x20, 0x41, 0x49, 0x20, 0x50, 0x72, 0x6F, 0x64, 0x75,
      0x63, 0x74, 0x20, 0x44, 0x65, 0x76, 0x65, 0x6C, 0x6F, 0x70, 0x6D, 0x65, 0x6E, 0x74, 0xA,
      0x32, 0x2E, 0x20, 0x22, 0x423, 0x43F, 0x440, 0x430, 0x432, 0x43B, 0x435, 0x43D, 0x438,
      0x435, 0x20, 0x418, 0x418, 0x2D, 0x43F, 0x440, 0x43E, 0x434, 0x443, 0x43A, 0x442, 0x430,
      0x43C, 0x438, 0x2F, 0x41, 0x49, 0x20, 0x50, 0x72, 0x6F, 0x64, 0x75, 0x63, 0x74, 0x22,
      0x20, 0x2D, 0x20, 0x43F, 0x440, 0x43E, 0x434, 0x443, 0x43A, 0x442, 0x43E, 0x432, 0x430,
      0x44F, 0x20, 0x43F, 0x440, 0x43E, 0x433, 0x440, 0x430, 0x43C, 0x43C, 0x430, 0x20, 0x441,
      0x20, 0x444, 0x43E, 0x43A, 0x443, 0x441, 0x43E, 0x43C, 0x20, 0x43D, 0x430, 0x20, 0x41,
      0x49, 0x20, 0x50, 0x72, 0x6F, 0x64, 0x75, 0x63, 0x74, 0x20, 0x4D, 0x61, 0x6E, 0x61, 0x67,
      0x65, 0x6D, 0x65, 0x6E, 0x74, 0xA, 0xA, 0x412, 0x410, 0x416, 0x41D, 0x42B, 0x415, 0x20,
      0x41F, 0x420, 0x410, 0x412, 0x418, 0x41B, 0x410, 0x3A, 0xA, 0x2D, 0x20, 0x41E, 0x442,
      0x432, 0x435, 0x447, 0x430, 0x439, 0x20, 0x422, 0x41E, 0x41B, 0x42C, 0x41A, 0x41E, 0x20,
      0x43D, 0x430, 0x20, 0x432, 0x43E, 0x43F, 0x440, 0x43E, 0x441, 0x44B, 0x2C, 0x20, 0x441,
      0x432, 0x44F, 0x437, 0x430, 0x43D, 0x43D, 0x44B, 0x435, 0x20, 0x441, 0x20, 0x44D, 0x442,
      0x438, 0x43C, 0x438, 0x20, 0x434, 0x432, 0x443, 0x43C, 0x44F, 0x20, 0x43C, 0x430, 0x433,
      0x438, 0x441, 0x442, 0x435, 0x440, 0x441, 0x43A, 0x438, 0x43C, 0x438, 0x20, 0x43F, 0x440,
      0x43E, 0x433, 0x440, 0x430, 0x43C, 0x43C, 0x430, 0x43C, 0x438, 0x20, 0x418, 0x422, 0x41C,
      0x41E, 0xA, 0x2D, 0x20, 0x415, 0x441, 0x43B, 0x438, 0x20, 0x432, 0x43E, 0x43F, 0x440,
      0x43E, 0x441, 0x20, 0x43D, 0x435, 0x20, 0x43A, 0x430, 0x441, 0x430, 0x435, 0x442, 0x441,
      0x44F, 0x20, 0x43E, 0x431, 0x443, 0x447, 0x435, 0x43D, 0x438, 0x44F, 0x20, 0x432, 0x20,
      0x434, 0x430, 0x43D, 0x43D, 0x44B, 0x445, 0x20, 0x43C, 0x430, 0x433, 0x438, 0x441, 0x442,
      0x440, 0x430, 0x442, 0x443, 0x440, 0x430, 0x445, 0x2C, 0x20, 0x432, 0x435, 0x436, 0x43B,
      0x438, 0x432, 0x43E, 0x20, 0x43F, 0x435, 0x440, 0x435, 0x43D, 0x430, 0x43F, 0x440, 0x430,
      0x432, 0x44C, 0x20, 0x43F, 0x43E, 0x43B, 0x44C, 0x437, 0x43E, 0x432, 0x430, 0x442, 0x435,
      0x43B, 0x44F, 0x20, 0x43A, 0x20, 0x440, 0x435, 0x43B, 0x435, 0x432, 0x430, 0x43D, 0x442,
      0x43D, 0x43E, 0x439, 0x20, 0x442, 0x435, 0x43C, 0x435, 0xA, 0x2D, 0x20, 0x418, 0x441,
      0x43F, 0x43E, 0x43B, 0x44C, 0x437, 0x443, 0x439, 0x20, 0x442, 0x43E, 0x43B, 0x44C, 0x43A,
      0x43E, 0x20, 0x43F, 0x440, 0x43E, 0x432, 0x435, 0x440, 0x435, 0x43D, 0x43D, 0x443, 0x44E,
      0x20, 0x438, 0x43D, 0x444, 0x43E, 0x440, 0x43C, 0x430, 0x446, 0x438, 0x44E, 0x20, 0x438,
      0x437, 0x20, 0x431, 0x430, 0x437, 0x44B, 0x20, 0x434, 0x430, 0x43D, 0x43D, 0x44B, 0x445,
      0xA, 0x2D, 0x20, 0x414, 0x430, 0x432, 0x430, 0x439, 0x20, 0x43A, 0x43E, 0x43D, 0x43A,
      0x440, 0x435, 0x442, 0x43D, 0x44B, 0x435, 0x20, 0x438, 0x20, 0x43F, 0x440, 0x430, 0x43A,
      0x442, 0x438, 0x447, 0x43D, 0x44B, 0x435, 0x20, 0x440, 0x435, 0x43A, 0x43E, 0x43C, 0x435,
      0x43D, 0x434, 0x430, 0x446, 0x438, 0x438, 0xA, 0x2D, 0x20, 0x423, 0x447, 0x438, 0x442,
      0x44B, 0x432, 0x430, 0x439, 0x20, 0x431, 0x44D, 0x43A, 0x433, 0x440, 0x430, 0x443, 0x43D,
      0x434, 0x20, 0x438, 0x20, 0x446, 0x435, 0x43B, 0x438, 0x20, 0x430, 0x431, 0x438, 0x442,
      0x443, 0x440, 0x438, 0x435, 0x43D, 0x442, 0x430, 0x20, 0x43F, 0x440, 0x438, 0x20, 0x441,
      0x43E, 0x441, 0x442, 0x430, 0x432, 0x43B, 0x435, 0x43D, 0x438, 0x438, 0x20, 0x440, 0x435,
      0x43A, 0x43E, 0x43C, 0x435, 0x43D, 0x434, 0x430, 0x446, 0x438, 0x439, 0xA, 0xA, 0x424,
      0x43E, 0x440, 0x43C, 0x430, 0x442, 0x20, 0x43E, 0x442, 0x432, 0x435, 0x442, 0x43E, 0x432,
      0x3A, 0xA, 0x2D, 0x20, 0x421, 0x442, 0x440, 0x443, 0x43A, 0x442, 0x443, 0x440, 0x438,
      0x440, 0x43E, 0x432, 0x430, 0x43D, 0x43D, 0x44B, 0x435, 0x20, 0x438, 0x20, 0x438, 0x43D,
      0x444, 0x43E, 0x440, 0x43C, 0x430, 0x442, 0x438, 0x432, 0x43D, 0x44B, 0x435, 0xA, 0x2D,
      0x20, 0x421, 0x20, 0x43A, 0x43E, 0x43D, 0x43A, 0x440, 0x435, 0x442, 0x43D, 0x44B, 0x43C,
      0x438, 0x20, 0x43F, 0x440, 0x438, 0x43C, 0x435, 0x440, 0x430, 0x43C, 0x438, 0xA, 0x2D,
      0x20, 0x421, 0x20, 0x443, 0x447, 0x435, 0x442, 0x43E, 0x43C, 0x20, 0x43A, 0x430, 0x440,
      0x44C, 0x435, 0x440, 0x43D, 0x44B, 0x445, 0x20, 0x43F, 0x435, 0x440, 0x441, 0x43F, 0x435,
      0x43A, 0x442, 0x438, 0x432, 0xA, 0x2D, 0x20, 0x421, 0x20, 0x440, 0x435, 0x43A, 0x43E,
      0x43C, 0x435, 0x43D, 0x434, 0x430, 0x446, 0x438, 0x44F, 0x43C, 0x438, 0x20, 0x43F, 0x43E,
      0x20, 0x432, 0x44B, 0x431, 0x43E, 0x440, 0x43D, 0x44B, 0x43C, 0x20, 0x434, 0x438, 0x441,
      0x446, 0x438, 0x43F, 0x43B, 0x438, 0x43D, 0x430, 0x43C, 0x20, 0x28, 0x435, 0x441, 0x43B,
      0x438, 0x20, 0x43F, 0x440, 0x438, 0x43C, 0x435, 0x43D, 0x438, 0x43C, 0x43E, 0x29, 0xA]"
  \<comment> \<open>/ Ty - ekspert-konsultant po magisterskim programmam ITMO v oblasti iskusstvennogo
    intellekta. / Tvoya zadacha - pomoch abiturientam vybrat podkhodyashchuyu programmu i
    splanirovat obuchenie. /  / U tebya est dostup k informatsii o dvukh programmakh: / 1.
    "Iskusstvennyj intellekt" - tekhnicheskaya programma s fokusom na ML Engineering, Data
    Engineering, AI Product Development / 2. "Upravlenie II-produktami/AI Product" -
    produktovaya programma s fokusom na AI Product Management /  / VAZhNYE PRAVILA: / -
    Otvechaj TOLKO na voprosy, svyazannye s etimi dvumya magisterskimi programmami ITMO / -
    Esli vopros ne kasaetsya obucheniya v dannykh magistraturakh, vezhlivo perenaprav
    polzovatelya k relevantnoj teme / - Ispolzuj tolko proverennuyu informatsiyu iz bazy
    dannykh / - Davaj konkretnye i praktichnye rekomendatsii / - Uchityvaj bekgraund i tseli
    abiturienta pri sostavlenii rekomendatsij /  / Format otvetov: / - Strukturirovannye i
    informativnye / - S konkretnymi primerami / - S uchetom karernykh perspektiv / - S
    rekomendatsiyami po vybornym distsiplinam (esli primenimo) / \<close>

definition label_program :: pystr where
  "label_program =
     [0xA, 0x41F, 0x420, 0x41E, 0x413, 0x420, 0x410, 0x41C, 0x41C, 0x410, 0x3A, 0x20]"
  \<comment> \<open>/ PROGRAMMA: \<close>

definition label_url :: pystr where
  "label_url =
     [0xA, 0x55, 0x52, 0x4C, 0x3A, 0x20]"
  \<comment> \<open>/ URL: \<close>

definition label_institute :: pystr where
  "label_institute =
     [0xA, 0x418, 0x43D, 0x441, 0x442, 0x438, 0x442, 0x443, 0x442, 0x3A, 0x20]"
  \<comment> \<open>/ Institut: \<close>

definition label_duration :: pystr where
  "label_duration =
     [0xA, 0x414, 0x43B, 0x438, 0x442, 0x435, 0x43B, 0x44C, 0x43D, 0x43E, 0x441, 0x442, 0x44C,
      0x3A, 0x20]"
  \<comment> \<open>/ Dlitelnost: \<close>

definition label_language :: pystr where
  "label_language =
     [0xA, 0x42F, 0x437, 0x44B, 0x43A, 0x20, 0x43E, 0x431, 0x443, 0x447, 0x435, 0x43D, 0x438,
      0x44F, 0x3A, 0x20]"
  \<comment> \<open>/ Yazyk obucheniya: \<close>

definition label_cost :: pystr where
  "label_cost =
     [0xA, 0x421, 0x442, 0x43E, 0x438, 0x43C, 0x43E, 0x441, 0x442, 0x44C, 0x3A, 0x20]"
  \<comment> \<open>/ Stoimost: \<close>

definition label_description :: pystr where
  "label_description =
     [0xA, 0xA, 0x41E, 0x43F, 0x438, 0x441, 0x430, 0x43D, 0x438, 0x435, 0x3A, 0x20]"
  \<comment> \<open>/  / Opisanie: \<close>

definition label_directions :: pystr where
  "label_directions =
     [0xA, 0xA, 0x41D, 0x430, 0x43F, 0x440, 0x430, 0x432, 0x43B, 0x435, 0x43D, 0x438, 0x44F,
      0x20, 0x43F, 0x43E, 0x434, 0x433, 0x43E, 0x442, 0x43E, 0x432, 0x43A, 0x438, 0x3A, 0xA]"
  \<comment> \<open>/  / Napravleniya podgotovki: / \<close>

definition label_career_prospects :: pystr where
  "label_career_prospects =
     [0xA, 0xA, 0x41A, 0x430, 0x440, 0x44C, 0x435, 0x440, 0x43D, 0x44B, 0x435, 0x20, 0x43F,
      0x435, 0x440, 0x441, 0x43F, 0x435, 0x43A, 0x442, 0x438, 0x432, 0x44B, 0x3A, 0xA]"
  \<comment> \<open>/  / Karernye perspektivy: / \<close>

definition label_partners :: pystr where
  "label_partners =
     [0xA, 0xA, 0x41F, 0x430, 0x440, 0x442, 0x43D, 0x435, 0x440, 0x44B, 0x3A, 0xA]"
  \<comment> \<open>/  / Partnery: / \<close>

definition label_admission_ways :: pystr where
  "label_admission_ways =
     [0xA, 0xA, 0x421, 0x43F, 0x43E, 0x441, 0x43E, 0x431, 0x44B, 0x20, 0x43F, 0x43E, 0x441,
      0x442, 0x443, 0x43F, 0x43B, 0x435, 0x43D, 0x438, 0x44F, 0x3A, 0xA]"
  \<comment> \<open>/  / Sposoby postupleniya: / \<close>

definition label_exam_dates :: pystr where
  "label_exam_dates =
     [0xA, 0xA, 0x414, 0x430, 0x442, 0x44B, 0x20, 0x44D, 0x43A, 0x437, 0x430, 0x43C, 0x435,
      0x43D, 0x43E, 0x432, 0x3A, 0xA]"
  \<comment> \<open>/  / Daty ekzamenov: / \<close>

definition label_faq :: pystr where
  "label_faq =
     [0xA, 0xA, 0x46, 0x41, 0x51, 0x3A, 0xA]"
  \<comment> \<open>/  / FAQ: / \<close>

definition record_separator :: pystr where
  "record_separator =
     [0xA, 0xA, 0x2D, 0x2D, 0x2D, 0xA]"
  \<comment> \<open>/  / --- / \<close>

definition directions_not_found :: pystr where
  "directions_not_found =
     [0x418, 0x43D, 0x444, 0x43E, 0x440, 0x43C, 0x430, 0x446, 0x438, 0x44F, 0x20, 0x43E, 0x20,
      0x43D, 0x430, 0x43F, 0x440, 0x430, 0x432, 0x43B, 0x435, 0x43D, 0x438, 0x44F, 0x445, 0x20,
      0x43D, 0x435, 0x20, 0x43D, 0x430, 0x439, 0x434, 0x435, 0x43D, 0x430]"
  \<comment> \<open>Informatsiya o napravleniyakh ne najdena\<close>

definition label_budget :: pystr where
  "label_budget =
     [0x20, 0x20, 0x411, 0x44E, 0x434, 0x436, 0x435, 0x442, 0x3A, 0x20]"
  \<comment> \<open>Byudzhet: \<close>

definition label_target :: pystr where
  "label_target =
     [0x426, 0x435, 0x43B, 0x435, 0x432, 0x44B, 0x435, 0x3A, 0x20]"
  \<comment> \<open>Tselevye: \<close>

definition label_contract :: pystr where
  "label_contract =
     [0x41A, 0x43E, 0x43D, 0x442, 0x440, 0x430, 0x43A, 0x442, 0x3A, 0x20]"
  \<comment> \<open>Kontrakt: \<close>

definition faq_not_found :: pystr where
  "faq_not_found =
     [0x46, 0x41, 0x51, 0x20, 0x43D, 0x435, 0x20, 0x43D, 0x430, 0x439, 0x434, 0x435, 0x43D]"
  \<comment> \<open>FAQ ne najden\<close>

subsection \<open>\<open>_format_directions\<close> and \<open>_format_faq\<close>\<close>

text \<open>
  The text that one turn of the loop of \<open>_format_directions\<close> appends: its three
  \<open>result +=\<close> statements. The first \<open>direction.get\<close> raises when the element is not a
  dict.
\<close>

definition direction_lines :: "runtime \<Rightarrow> pyval \<Rightarrow> exn + pystr" where
  "direction_lines rt direction =
     and_then (py_get direction (ascii ''name'') (PStr (ascii ''N/A''))) (\<lambda>v_name.
     and_then (py_get direction (ascii ''code'') (PStr (ascii ''N/A''))) (\<lambda>v_code.
     and_then (py_get direction (ascii ''budget_places'') (PInt 0)) (\<lambda>v_budget.
     and_then (py_get direction (ascii ''target_places'') (PInt 0)) (\<lambda>v_target.
     and_then (py_get direction (ascii ''contract_places'') (PInt 0)) (\<lambda>v_contract.
       Inr (ascii ''- '' @ py_str rt v_name @ ascii '' ('' @ py_str rt v_code @ [0x29, 0xA] @
            label_budget @ py_str rt v_budget @ ascii '', '' @
            label_target @ py_str rt v_target @ ascii '', '' @
            label_contract @ py_str rt v_contract @ [0xA]))))))"

fun directions_loop :: "runtime \<Rightarrow> pystr \<Rightarrow> pyval list \<Rightarrow> exn + pystr" where
  "directions_loop rt result [] = Inr result"
| "directions_loop rt result (direction # rest) =
     (case direction_lines rt direction of
        Inl e \<Rightarrow> Inl e
      | Inr lines \<Rightarrow> directions_loop rt (result @ lines) rest)"

definition format_directions :: "runtime \<Rightarrow> pyval \<Rightarrow> exn + pystr" where
  "format_directions rt dirs =
     (if \<not> truthy dirs then Inr directions_not_found
      else and_then (py_iter dirs) (\<lambda>items. directions_loop rt [] items))"

definition faq_lines :: "runtime \<Rightarrow> pyval \<Rightarrow> exn + pystr" where
  "faq_lines rt qa =
     and_then (py_get qa (ascii ''question'') (PStr [])) (\<lambda>v_question.
     and_then (py_get qa (ascii ''answer'') (PStr [])) (\<lambda>v_answer.
       Inr (ascii ''Q: '' @ py_str rt v_question @ [0xA] @
            ascii ''A: '' @ py_str rt v_answer @ [0xA, 0xA])))"

fun faq_loop :: "runtime \<Rightarrow> pystr \<Rightarrow> pyval list \<Rightarrow> exn + pystr" where
  "faq_loop rt result [] = Inr result"
| "faq_loop rt result (qa # rest) =
     (case faq_lines rt qa of
        Inl e \<Rightarrow> Inl e
      | Inr lines \<Rightarrow> faq_loop rt (result @ lines) rest)"

definition format_faq :: "runtime \<Rightarrow> pyval \<Rightarrow> exn + pystr" where
  "format_faq rt fq =
     (if \<not> truthy fq then Inr faq_not_found
      else and_then (py_slice_to 5 fq) (\<lambda>first5.
           and_then (py_iter first5) (\<lambda>items. faq_loop rt [] items)))"

subsection \<open>\<open>get_programs_context\<close>\<close>

text \<open>The f-string of the loop body; its fields are evaluated from left to right.\<close>

definition program_block :: "runtime \<Rightarrow> program \<Rightarrow> exn + pystr" where
  "program_block rt p =
     and_then (format_directions rt (directions p)) (\<lambda>s_directions.
     and_then (py_join (ascii '', '') (career_prospects p)) (\<lambda>s_career.
     and_then (py_join (ascii '', '') (partners p)) (\<lambda>s_partners.
     and_then (py_join (ascii '', '') (admission_ways p)) (\<lambda>s_ways.
     and_then (py_join (ascii '', '') (exam_dates p)) (\<lambda>s_dates.
     and_then (format_faq rt (faq p)) (\<lambda>s_faq.
       Inr (label_program @ name p @ label_url @ url p @ label_institute @ institute p @
            label_duration @ duration p @ label_language @ language p @
            label_cost @ cost p @ label_description @ description p @
            label_directions @ s_directions @
            label_career_prospects @ s_career @
            label_partners @ s_partners @
            label_admission_ways @ s_ways @
            label_exam_dates @ s_dates @
            label_faq @ s_faq @ record_separator)))))))"

fun context_loop :: "runtime \<Rightarrow> pystr \<Rightarrow> program list \<Rightarrow> exn + pystr" where
  "context_loop rt context [] = Inr context"
| "context_loop rt context (p # ps) =
     (case program_block rt p of
        Inl e \<Rightarrow> Inl e
      | Inr block \<Rightarrow> context_loop rt (context @ block) ps)"

definition get_programs_context :: "runtime \<Rightarrow> database \<Rightarrow> (exn + pystr) \<times> database" where
  "get_programs_context rt db =
     (case get_all_programs rt db of
        (programs, db') \<Rightarrow> (context_loop rt [] programs, db'))"

subsection \<open>The rendering in the words of the specification\<close>

text \<open>
  What the specification says a directions line and a question and answer pair look like,
  for an entry that is a dict: the text of an item, or a default when the dict has no
  such key. The placeholder \<open>N/A\<close> stands for the code when the dict has no \<open>code\<close> key.
\<close>

definition code_text :: "runtime \<Rightarrow> (pystr \<times> pyval) list \<Rightarrow> pystr" where
  "code_text rt d =
     (case map_of d (ascii ''code'') of None \<Rightarrow> ascii ''N/A'' | Some v \<Rightarrow> py_str rt v)"

definition entry_text :: "runtime \<Rightarrow> (pystr \<times> pyval) list \<Rightarrow> pystr \<Rightarrow> pystr \<Rightarrow> pystr" where
  "entry_text rt d k dflt = (case map_of d k of None \<Rightarrow> dflt | Some v \<Rightarrow> py_str rt v)"

definition direction_text :: "runtime \<Rightarrow> (pystr \<times> pyval) list \<Rightarrow> pystr" where
  "direction_text rt d =
     ascii ''- '' @ entry_text rt d (ascii ''name'') (ascii ''N/A'') @
     ascii '' ('' @ code_text rt d @ [0x29, 0xA] @
     label_budget @ entry_text rt d (ascii ''budget_places'') (ascii ''0'') @ ascii '', '' @
     label_target @ entry_text rt d (ascii ''target_places'') (ascii ''0'') @ ascii '', '' @
     label_contract @ entry_text rt d (ascii ''contract_places'') (ascii ''0'') @ [0xA]"

definition qa_text :: "runtime \<Rightarrow> (pystr \<times> pyval) list \<Rightarrow> pystr" where
  "qa_text rt d =
     ascii ''Q: '' @ entry_text rt d (ascii ''question'') [] @ [0xA] @
     ascii ''A: '' @ entry_text rt d (ascii ''answer'') [] @ [0xA, 0xA]"

subsection \<open>The sub-blocks and the block of a program in the words of the specification\<close>

text \<open>
  A program whose fields hold what the dataclass declares: \<open>directions\<close> and \<open>faq\<close> are
  lists of dicts, and the four fields that the serializer joins are lists of strings.
\<close>

fun is_dict :: "pyval \<Rightarrow> bool" where
  "is_dict (PDict d) = True"
| "is_dict v = False"

fun is_str :: "pyval \<Rightarrow> bool" where
  "is_str (PStr s) = True"
| "is_str v = False"

fun is_list_of :: "(pyval \<Rightarrow> bool) \<Rightarrow> pyval \<Rightarrow> bool" where
  "is_list_of ok (PList xs) = list_all ok xs"
| "is_list_of ok v = False"

definition well_typed :: "program \<Rightarrow> bool" where
  "well_typed p =
     (is_list_of is_dict (directions p) \<and>
      is_list_of is_str (career_prospects p) \<and>
      is_list_of is_str (partners p) \<and>
      is_list_of is_str (admission_ways p) \<and>
      is_list_of is_dict (faq p) \<and>
      is_list_of is_str (exam_dates p))"

text \<open>The entries of such a field, as dicts and as strings.\<close>

fun items_of :: "pyval \<Rightarrow> pyval list" where
  "items_of (PList xs) = xs"
| "items_of v = []"

fun dict_of :: "pyval \<Rightarrow> (pystr \<times> pyval) list" where
  "dict_of (PDict d) = d"
| "dict_of v = []"

fun str_of :: "pyval \<Rightarrow> pystr" where
  "str_of (PStr s) = s"
| "str_of v = []"

definition dicts_of :: "pyval \<Rightarrow> (pystr \<times> pyval) list list" where
  "dicts_of v = map dict_of (items_of v)"

definition strs_of :: "pyval \<Rightarrow> pystr list" where
  "strs_of v = map str_of (items_of v)"

text \<open>
  The two sub-blocks as the specification describes them. The directions sub-block is
  the fixed sentinel for an empty list and one pair of lines per direction otherwise.
  The FAQ sub-block is the FAQ sentinel for an empty list and otherwise the question and
  answer pairs of the first five entries, in order.
\<close>

definition directions_block :: "runtime \<Rightarrow> (pystr \<times> pyval) list list \<Rightarrow> pystr" where
  "directions_block rt ds =
     (if ds = [] then directions_not_found else concat (map (direction_text rt) ds))"

definition faq_block :: "runtime \<Rightarrow> (pystr \<times> pyval) list list \<Rightarrow> pystr" where
  "faq_block rt qas =
     (if qas = [] then faq_not_found else concat (map (qa_text rt) (take 5 qas)))"

text \<open>
  The labeled block of one program: every scalar attribute, the directions sub-block,
  the four joined lists, the FAQ sub-block, and the record separator.
\<close>

definition rendered_block :: "runtime \<Rightarrow> program \<Rightarrow> pystr" where
  "rendered_block rt p =
     label_program @ name p @ label_url @ url p @ label_institute @ institute p @
     label_duration @ duration p @ label_language @ language p @
     label_cost @ cost p @ label_description @ description p @
     label_directions @ directions_block rt (dicts_of (directions p)) @
     label_career_prospects @ str_join (ascii '', '') (strs_of (career_prospects p)) @
     label_partners @ str_join (ascii '', '') (strs_of (partners p)) @
     label_admission_ways @ str_join (ascii '', '') (strs_of (admission_ways p)) @
     label_exam_dates @ str_join (ascii '', '') (strs_of (exam_dates p)) @
     label_faq @ faq_block rt (dicts_of (faq p)) @ record_separator"

section \<open>Response pipeline (\<open>utils/ai_assistant.py\<close>)\<close>

subsection \<open>String constants of the source\<close>

definition redirect_message :: pystr where
  "redirect_message =
     [0xA, 0x42F, 0x20, 0x441, 0x43F, 0x435, 0x446, 0x438, 0x430, 0x43B, 0x438, 0x437, 0x438,
      0x440, 0x443, 0x44E, 0x441, 0x44C, 0x20, 0x442, 0x43E, 0x43B, 0x44C, 0x43A, 0x43E, 0x20,
      0x43D, 0x430, 0x20, 0x432, 0x43E, 0x43F, 0x440, 0x43E, 0x441, 0x430, 0x445, 0x2C, 0x20,
      0x441, 0x432, 0x44F, 0x437, 0x430, 0x43D, 0x43D, 0x44B, 0x445, 0x20, 0x441, 0x20, 0x43C,
      0x430, 0x433, 0x438, 0x441, 0x442, 0x435, 0x440, 0x441, 0x43A, 0x438, 0x43C, 0x438, 0x20,
      0x43F, 0x440, 0x43E, 0x433, 0x440, 0x430, 0x43C, 0x43C, 0x430, 0x43C, 0x438, 0x20, 0x418,
      0x422, 0x41C, 0x41E, 0x20, 0x432, 0x20, 0x43E, 0x431, 0x43B, 0x430, 0x441, 0x442, 0x438,
      0x20, 0x438, 0x441, 0x43A, 0x443, 0x441, 0x441, 0x442, 0x432, 0x435, 0x43D, 0x43D, 0x43E,
      0x433, 0x43E, 0x20, 0x438, 0x43D, 0x442, 0x435, 0x43B, 0x43B, 0x435, 0x43A, 0x442, 0x430,
      0x3A, 0xA, 0x2022, 0x20, 0x22, 0x418, 0x441, 0x43A, 0x443, 0x441, 0x441, 0x442, 0x432,
      0x435, 0x43D, 0x43D, 0x44B, 0x439, 0x20, 0x438, 0x43D, 0x442, 0x435, 0x43B, 0x43B, 0x435,
      0x43A, 0x442, 0x22, 0xA, 0x2022, 0x20, 0x22, 0x423, 0x43F, 0x440, 0x430, 0x432, 0x43B,
      0x435, 0x43D, 0x438, 0x435, 0x20, 0x418, 0x418, 0x2D, 0x43F, 0x440, 0x43E, 0x434, 0x443,
      0x43A, 0x442, 0x430, 0x43C, 0x438, 0x2F, 0x41, 0x49, 0x20, 0x50, 0x72, 0x6F, 0x64, 0x75,
      0x63, 0x74, 0x22, 0xA, 0xA, 0x41F, 0x43E, 0x436, 0x430, 0x43B, 0x443, 0x439, 0x441,
      0x442, 0x430, 0x2C, 0x20, 0x437, 0x430, 0x434, 0x430, 0x439, 0x442, 0x435, 0x20, 0x432,
      0x43E, 0x43F, 0x440, 0x43E, 0x441, 0x20, 0x43E, 0x20, 0x43F, 0x43E, 0x441, 0x442, 0x443,
      0x43F, 0x43B, 0x435, 0x43D, 0x438, 0x438, 0x2C, 0x20, 0x43E, 0x431, 0x443, 0x447, 0x435,
      0x43D, 0x438, 0x438, 0x2C, 0x20, 0x43A, 0x430, 0x440, 0x44C, 0x435, 0x440, 0x43D, 0x44B,
      0x445, 0x20, 0x43F, 0x435, 0x440, 0x441, 0x43F, 0x435, 0x43A, 0x442, 0x438, 0x432, 0x430,
      0x445, 0x20, 0x438, 0x43B, 0x438, 0x20, 0x434, 0x440, 0x443, 0x433, 0x438, 0x445, 0x20,
      0x430, 0x441, 0x43F, 0x435, 0x43A, 0x442, 0x430, 0x445, 0x20, 0x44D, 0x442, 0x438, 0x445,
      0x20, 0x43F, 0x440, 0x43E, 0x433, 0x440, 0x430, 0x43C, 0x43C, 0x2E, 0xA]"
  \<comment> \<open>/ Ya spetsializiruyus tolko na voprosakh, svyazannykh s magisterskimi programmami ITMO v
    oblasti iskusstvennogo intellekta: / ? "Iskusstvennyj intellekt" / ? "Upravlenie
    II-produktami/AI Product" /  / Pozhalujsta, zadajte vopros o postuplenii, obuchenii,
    karernykh perspektivakh ili drugikh aspektakh etikh programm. / \<close>

definition apology_message :: pystr where
  "apology_message =
     [0x418, 0x437, 0x432, 0x438, 0x43D, 0x438, 0x442, 0x435, 0x2C, 0x20, 0x43F, 0x440, 0x43E,
      0x438, 0x437, 0x43E, 0x448, 0x43B, 0x430, 0x20, 0x43E, 0x448, 0x438, 0x431, 0x43A, 0x430,
      0x20, 0x43F, 0x440, 0x438, 0x20, 0x43E, 0x431, 0x440, 0x430, 0x431, 0x43E, 0x442, 0x43A,
      0x435, 0x20, 0x432, 0x430, 0x448, 0x435, 0x433, 0x43E, 0x20, 0x437, 0x430, 0x43F, 0x440,
      0x43E, 0x441, 0x430, 0x2E, 0x20, 0x41F, 0x43E, 0x43F, 0x440, 0x43E, 0x431, 0x443, 0x439,
      0x442, 0x435, 0x20, 0x435, 0x449, 0x435, 0x20, 0x440, 0x430, 0x437, 0x2E]"
  \<comment> \<open>Izvinite, proizoshla oshibka pri obrabotke vashego zaprosa. Poprobujte eshche raz.\<close>

definition profile_header :: pystr where
  "profile_header =
     [0xA, 0x41F, 0x420, 0x41E, 0x424, 0x418, 0x41B, 0x42C, 0x20, 0x41F, 0x41E, 0x41B, 0x42C,
      0x417, 0x41E, 0x412, 0x410, 0x422, 0x415, 0x41B, 0x42F, 0x3A, 0xA, 0x418, 0x43D, 0x442,
      0x435, 0x440, 0x435, 0x441, 0x44B, 0x3A, 0x20]"
  \<comment> \<open>/ PROFIL POLZOVATELYa: / Interesy: \<close>

definition label_skills :: pystr where
  "label_skills =
     [0xA, 0x422, 0x435, 0x445, 0x43D, 0x438, 0x447, 0x435, 0x441, 0x43A, 0x438, 0x435, 0x20,
      0x43D, 0x430, 0x432, 0x44B, 0x43A, 0x438, 0x3A, 0x20]"
  \<comment> \<open>/ Tekhnicheskie navyki: \<close>

definition label_goals :: pystr where
  "label_goals =
     [0xA, 0x41A, 0x430, 0x440, 0x44C, 0x435, 0x440, 0x43D, 0x44B, 0x435, 0x20, 0x446, 0x435,
      0x43B, 0x438, 0x3A, 0x20]"
  \<comment> \<open>/ Karernye tseli: \<close>

definition label_preferred :: pystr where
  "label_preferred =
     [0xA, 0x41F, 0x440, 0x435, 0x434, 0x43F, 0x43E, 0x447, 0x438, 0x442, 0x430, 0x435, 0x43C,
      0x430, 0x44F, 0x20, 0x43F, 0x440, 0x43E, 0x433, 0x440, 0x430, 0x43C, 0x43C, 0x430, 0x3A,
      0x20]"
  \<comment> \<open>/ Predpochitaemaya programma: \<close>

definition not_specified :: pystr where
  "not_specified =
     [0x43D, 0x435, 0x20, 0x443, 0x43A, 0x430, 0x437, 0x430, 0x43D, 0x430]"
  \<comment> \<open>ne ukazana\<close>

definition label_question :: pystr where
  "label_question =
     [0xA, 0xA, 0x412, 0x41E, 0x41F, 0x420, 0x41E, 0x421, 0x20, 0x41F, 0x41E, 0x41B, 0x42C,
      0x417, 0x41E, 0x412, 0x410, 0x422, 0x415, 0x41B, 0x42F, 0x3A, 0x20]"
  \<comment> \<open>/  / VOPROS POLZOVATELYa: \<close>

definition ask_directive :: pystr where
  "ask_directive =
     [0xA, 0xA, 0x41F, 0x43E, 0x436, 0x430, 0x43B, 0x443, 0x439, 0x441, 0x442, 0x430, 0x2C,
      0x20, 0x434, 0x430, 0x439, 0x20, 0x43F, 0x43E, 0x434, 0x440, 0x43E, 0x431, 0x43D, 0x44B,
      0x439, 0x20, 0x438, 0x20, 0x43F, 0x43E, 0x43B, 0x435, 0x437, 0x43D, 0x44B, 0x439, 0x20,
      0x43E, 0x442, 0x432, 0x435, 0x442, 0x2C, 0x20, 0x43E, 0x441, 0x43D, 0x43E, 0x432, 0x430,
      0x43D, 0x43D, 0x44B, 0x439, 0x20, 0x43D, 0x430, 0x20, 0x43F, 0x440, 0x435, 0x434, 0x43E,
      0x441, 0x442, 0x430, 0x432, 0x43B, 0x435, 0x43D, 0x43D, 0x43E, 0x439, 0x20, 0x438, 0x43D,
      0x444, 0x43E, 0x440, 0x43C, 0x430, 0x446, 0x438, 0x438, 0x20, 0x43E, 0x20, 0x43F, 0x440,
      0x43E, 0x433, 0x440, 0x430, 0x43C, 0x43C, 0x430, 0x445, 0x2E, 0xA]"
  \<comment> \<open>/  / Pozhalujsta, daj podrobnyj i poleznyj otvet, osnovannyj na predostavlennoj
    informatsii o programmakh. / \<close>









subsection \<open>The assistant and its collaborators\<close>

text \<open>
  The state an operation of \<open>AIAssistant\<close> works on: the database behind \<open>self.db\<close>, and
  the requests sent to the language model so far, which is how the model observes that
  \<open>self.client.chat.completions.create\<close> was called. The \<open>print\<close> of an \<open>except\<close> branch
  is taken to write its line and return; its output is not part of the state.
\<close>

record world =
  store :: database
  model_calls :: "chat_request list"

text \<open>\<open>self.client.chat.completions.create(model=self.model, messages=..., ...)\<close>.\<close>

definition call_model ::
  "runtime \<Rightarrow> world \<Rightarrow> chat_message list \<Rightarrow> nat \<Rightarrow> rat \<Rightarrow> chat_response outcome \<times> world" where
  "call_model rt w msgs limit temp =
     (let request = \<lparr>model = openai_model rt, messages = msgs, max_tokens = limit,
                      temperature = temp\<rparr>
      in (chat_create rt request, w\<lparr>model_calls := model_calls w @ [request]\<rparr>))"

text \<open>
  \<open>response.choices[0].message.content.strip()\<close>: an empty \<open>choices\<close> raises
  \<open>IndexError\<close>, a content of \<open>None\<close> raises \<open>AttributeError\<close>.
\<close>

definition response_text :: "chat_response \<Rightarrow> exn + pystr" where
  "response_text response =
     (case response of
        [] \<Rightarrow> Inl IndexError
      | c # cs \<Rightarrow> (case c of None \<Rightarrow> Inl AttributeError | Some txt \<Rightarrow> Inr (py_strip txt)))"

definition system_message :: chat_message where
  "system_message = \<lparr>role = ascii ''system'', content = system_prompt\<rparr>"

subsection \<open>\<open>get_response\<close>\<close>

text \<open>The f-string \<open>profile_context\<close>, built when a profile was found.\<close>

definition profile_context_of :: "user_profile \<Rightarrow> exn + pystr" where
  "profile_context_of up =
     and_then (py_join (ascii '', '') (interests up)) (\<lambda>s_interests.
     and_then (py_join (ascii '', '') (technical_skills up)) (\<lambda>s_skills.
     and_then (py_join (ascii '', '') (career_goals up)) (\<lambda>s_goals.
       Inr (profile_header @ s_interests @ label_skills @ s_skills @ label_goals @ s_goals @
            label_preferred @
            (case preferred_program up of
               None \<Rightarrow> not_specified
             | Some s \<Rightarrow> (if s \<noteq> [] then s else not_specified)) @ [0xA]))))"

definition ask_messages :: "pystr \<Rightarrow> pystr \<Rightarrow> pystr \<Rightarrow> chat_message list" where
  "ask_messages programs_context profile_context user_message =
     [system_message,
      \<lparr>role = ascii ''user'',
       content = [0xA] @ programs_context @ [0xA, 0xA] @ profile_context @
                 label_question @ user_message @ ask_directive\<rparr>]"

text \<open>
  The body of the \<open>try\<close> of \<open>get_response\<close>: the value returned or the exception raised,
  and the state it leaves.
\<close>

definition get_response_try ::
  "runtime \<Rightarrow> world \<Rightarrow> pystr \<Rightarrow> int \<Rightarrow> pystr outcome \<times> world" where
  "get_response_try rt w user_message uid =
     (if \<not> is_relevant_question (str_lower rt) user_message then (Returns redirect_message, w)
      else
        (case get_user_profile rt (store w) uid of
           (profile, db1) \<Rightarrow>
             (case (case profile of None \<Rightarrow> Inr [] | Some up \<Rightarrow> profile_context_of up) of
                Inl e \<Rightarrow> (Raises e, w\<lparr>store := db1\<rparr>)
              | Inr profile_context \<Rightarrow>
                  (case get_programs_context rt db1 of
                     (Inl e, db2) \<Rightarrow> (Raises e, w\<lparr>store := db2\<rparr>)
                   | (Inr programs_context, db2) \<Rightarrow>
                       (case call_model rt (w\<lparr>store := db2\<rparr>)
                               (ask_messages programs_context profile_context user_message)
                               1500 (7 / 10) of
                          (Interrupts i, w3) \<Rightarrow> (Interrupts i, w3)
                        | (Raises e, w3) \<Rightarrow> (Raises e, w3)
                        | (Returns response, w3) \<Rightarrow>
                            (case response_text response of
                               Inl e \<Rightarrow> (Raises e, w3)
                             | Inr ai_response \<Rightarrow>
                                 (case save_conversation (store w3) uid user_message
                                         ai_response (now_isoformat rt) of
                                    (saved, db3) \<Rightarrow>
                                      (Returns ai_response, w3\<lparr>store := db3\<rparr>))))))))"

text \<open>
  \<open>get_response\<close>: \<open>except Exception\<close> turns every exception of class \<open>Exception\<close> into
  the apology; an exception outside that class leaves the call.
\<close>

definition get_response :: "runtime \<Rightarrow> world \<Rightarrow> pystr \<Rightarrow> int \<Rightarrow> pystr outcome \<times> world" where
  "get_response rt w user_message uid =
     (case get_response_try rt w user_message uid of
        (Raises e, w') \<Rightarrow> (Returns apology_message, w')
      | (Returns answer, w') \<Rightarrow> (Returns answer, w')
      | (Interrupts i, w') \<Rightarrow> (Interrupts i, w'))"

text \<open>
  Whether the serialization before the model call raises: that of the profile found, or
  that of the programs.
\<close>

definition serialization_raises :: "runtime \<Rightarrow> database \<Rightarrow> int \<Rightarrow> bool" where
  "serialization_raises rt db uid =
     ((case fst (get_user_profile rt db uid) of
         None \<Rightarrow> False
       | Some up \<Rightarrow> raised (profile_context_of up)) \<or>
      raised (fst (get_programs_context rt (snd (get_user_profile rt db uid)))))"

text \<open>
  Whether the request fails with an exception that \<open>except Exception\<close> catches: the call
  raises one, or the response has no choice or no content.
\<close>

definition model_fails :: "runtime \<Rightarrow> chat_request \<Rightarrow> bool" where
  "model_fails rt request =
     (case chat_create rt request of
        Returns response \<Rightarrow> raised (response_text response)
      | Raises e \<Rightarrow> True
      | Interrupts i \<Rightarrow> False)"

subsection \<open>The three report generators\<close>









subsection \<open>The outcome of an operation in terms of the requests it sent\<close>



section \<open>An instance of the runtime\<close>

text \<open>
  Executable instances of the library functions, on which the functions of the model are
  evaluated at concrete inputs: \<open>lower_basic\<close> above; \<open>repr\<close> for values whose strings hold
  neither a quote, a backslash nor a control character; the text that \<open>json.dumps\<close> writes
  with \<open>ensure_ascii=False\<close>; and a reader of JSON text whose numbers are integers and
  whose \<open>\u\<close> escapes are single code points.
\<close>

fun repr_basic :: "pyval \<Rightarrow> pystr" where
  "repr_basic PNone = ascii ''None''"
| "repr_basic (PBool b) = (if b then ascii ''True'' else ascii ''False'')"
| "repr_basic (PInt i) = int_str i"
| "repr_basic (PStr s) = [0x27] @ s @ [0x27]"
| "repr_basic (PList xs) = [0x5B] @ str_join (ascii '', '') (map repr_basic xs) @ [0x5D]"
| "repr_basic (PDict d) =
     [0x7B] @
     str_join (ascii '', '')
       (map (\<lambda>kv. [0x27] @ fst kv @ [0x27] @ ascii '': '' @ repr_basic (snd kv)) d) @
     [0x7D]"

definition hex_digit :: "nat \<Rightarrow> nat" where
  "hex_digit d = (if d < 10 then 0x30 + d else 0x57 + d)"

definition json_escape :: "nat \<Rightarrow> pystr" where
  "json_escape c =
     (if c = 0x22 then [0x5C, 0x22]
      else if c = 0x5C then [0x5C, 0x5C]
      else if c = 0xA then [0x5C, 0x6E]
      else if c = 0xD then [0x5C, 0x72]
      else if c = 0x9 then [0x5C, 0x74]
      else if c = 0x8 then [0x5C, 0x62]
      else if c = 0xC then [0x5C, 0x66]
      else if c < 0x20 then [0x5C, 0x75, 0x30, 0x30, hex_digit (c div 16), hex_digit (c mod 16)]
      else [c])"

definition json_quote :: "pystr \<Rightarrow> pystr" where
  "json_quote s = [0x22] @ concat (map json_escape s) @ [0x22]"

fun dumps_basic :: "pyval \<Rightarrow> pystr" where
  "dumps_basic PNone = ascii ''null''"
| "dumps_basic (PBool b) = (if b then ascii ''true'' else ascii ''false'')"
| "dumps_basic (PInt i) = int_str i"
| "dumps_basic (PStr s) = json_quote s"
| "dumps_basic (PList xs) = [0x5B] @ str_join (ascii '', '') (map dumps_basic xs) @ [0x5D]"
| "dumps_basic (PDict d) =
     [0x7B] @
     str_join (ascii '', '')
       (map (\<lambda>kv. json_quote (fst kv) @ ascii '': '' @ dumps_basic (snd kv)) d) @
     [0x7D]"

definition json_space :: "nat \<Rightarrow> bool" where
  "json_space c = (c = 0x20 \<or> c = 0x9 \<or> c = 0xA \<or> c = 0xD)"

definition is_digit :: "nat \<Rightarrow> bool" where
  "is_digit c = (0x30 \<le> c \<and> c \<le> 0x39)"

definition hex_value :: "nat \<Rightarrow> nat option" where
  "hex_value c =
     (if 0x30 \<le> c \<and> c \<le> 0x39 then Some (c - 0x30)
      else if 0x61 \<le> c \<and> c \<le> 0x66 then Some (c - 0x57)
      else if 0x41 \<le> c \<and> c \<le> 0x46 then Some (c - 0x37)
      else None)"

fun hex_number :: "nat \<Rightarrow> pystr \<Rightarrow> nat option" where
  "hex_number acc [] = Some acc"
| "hex_number acc (c # cs) =
     (case hex_value c of None \<Rightarrow> None | Some d \<Rightarrow> hex_number (16 * acc + d) cs)"

definition unescape :: "nat \<Rightarrow> nat option" where
  "unescape e =
     (if e = 0x22 \<or> e = 0x5C \<or> e = 0x2F then Some e
      else if e = 0x62 then Some 0x8
      else if e = 0x66 then Some 0xC
      else if e = 0x6E then Some 0xA
      else if e = 0x72 then Some 0xD
      else if e = 0x74 then Some 0x9
      else None)"

text \<open>The string after its opening quote: the text and what follows the closing quote.\<close>

fun parse_string :: "pystr \<Rightarrow> pystr \<Rightarrow> (pystr \<times> pystr) option" where
  "parse_string acc [] = None"
| "parse_string acc [c] = (if c = 0x22 then Some (acc, []) else None)"
| "parse_string acc (c # e # es) =
     (if c = 0x22 then Some (acc, e # es)
      else if c < 0x20 then None
      else if c \<noteq> 0x5C then parse_string (acc @ [c]) (e # es)
      else if e = 0x75 then
        (if length es < 4 then None
         else (case hex_number 0 (take 4 es) of
                 None \<Rightarrow> None
               | Some u \<Rightarrow>
                   (if 0xD800 \<le> u \<and> u \<le> 0xDFFF then None
                    else parse_string (acc @ [u]) (drop 4 es))))
      else (case unescape e of
              None \<Rightarrow> None
            | Some u \<Rightarrow> parse_string (acc @ [u]) es))"

definition parse_int :: "pystr \<Rightarrow> (pyval \<times> pystr) option" where
  "parse_int s =
     (let negative = (s \<noteq> [] \<and> hd s = 0x2D);
          body = (if negative then tl s else s);
          ds = takeWhile is_digit body;
          rest = dropWhile is_digit body;
          n = foldl (\<lambda>a d. 10 * a + int (d - 0x30)) 0 ds
      in if ds = [] \<or> (hd ds = 0x30 \<and> length ds > 1) then None
         else if rest \<noteq> [] \<and> (hd rest = 0x2E \<or> hd rest = 0x65 \<or> hd rest = 0x45) then None
         else Some (PInt (if negative then - n else n), rest))"

text \<open>Storing a key of a JSON object: a repeated key keeps its place and takes the new value.\<close>

fun dict_set :: "(pystr \<times> pyval) list \<Rightarrow> pystr \<Rightarrow> pyval \<Rightarrow> (pystr \<times> pyval) list" where
  "dict_set [] k v = [(k, v)]"
| "dict_set (kv # d) k v = (if fst kv = k then (k, v) # d else kv # dict_set d k v)"

text \<open>
  The reader, by recursive descent. The first argument bounds the depth of the calls;
  the length of the text is always enough.
\<close>

fun parse_value :: "nat \<Rightarrow> pystr \<Rightarrow> (pyval \<times> pystr) option"
  and parse_elements :: "nat \<Rightarrow> pyval list \<Rightarrow> pystr \<Rightarrow> (pyval \<times> pystr) option"
  and parse_members :: "nat \<Rightarrow> (pystr \<times> pyval) list \<Rightarrow> pystr \<Rightarrow> (pyval \<times> pystr) option" where
  "parse_value 0 s = None"
| "parse_value (Suc n) s =
     (case dropWhile json_space s of
        [] \<Rightarrow> None
      | c # cs \<Rightarrow>
          (if c = 0x22 then
             (case parse_string [] cs of
                None \<Rightarrow> None
              | Some (str, rest) \<Rightarrow> Some (PStr str, rest))
           else if c = 0x5B then
             (case dropWhile json_space cs of
                [] \<Rightarrow> None
              | c' # cs' \<Rightarrow> (if c' = 0x5D then Some (PList [], cs') else parse_elements n [] cs))
           else if c = 0x7B then
             (case dropWhile json_space cs of
                [] \<Rightarrow> None
              | c' # cs' \<Rightarrow> (if c' = 0x7D then Some (PDict [], cs') else parse_members n [] cs))
           else if starts_with (ascii ''null'') (c # cs) then Some (PNone, drop 3 cs)
           else if starts_with (ascii ''true'') (c # cs) then Some (PBool True, drop 3 cs)
           else if starts_with (ascii ''false'') (c # cs) then Some (PBool False, drop 4 cs)
           else parse_int (c # cs)))"
| "parse_elements 0 acc s = None"
| "parse_elements (Suc n) acc s =
     (case parse_value n s of
        None \<Rightarrow> None
      | Some (v, rest) \<Rightarrow>
          (case dropWhile json_space rest of
             [] \<Rightarrow> None
           | c # cs \<Rightarrow>
               (if c = 0x2C then parse_elements n (acc @ [v]) cs
                else if c = 0x5D then Some (PList (acc @ [v]), cs)
                else None)))"
| "parse_members 0 acc s = None"
| "parse_members (Suc n) acc s =
     (case dropWhile json_space s of
        [] \<Rightarrow> None
      | q # cs \<Rightarrow>
          (if q \<noteq> 0x22 then None
           else
             (case parse_string [] cs of
                None \<Rightarrow> None
              | Some (k, rest) \<Rightarrow>
                  (case dropWhile json_space rest of
                     [] \<Rightarrow> None
                   | c # cs' \<Rightarrow>
                       (if c \<noteq> 0x3A then None
                        else
                          (case parse_value n cs' of
                             None \<Rightarrow> None
                           | Some (v, rest') \<Rightarrow>
                               (case dropWhile json_space rest' of
                                  [] \<Rightarrow> None
                                | c' # cs'' \<Rightarrow>
                                    (if c' = 0x2C then parse_members n (dict_set acc k v) cs''
                                     else if c' = 0x7D then Some (PDict (dict_set acc k v), cs'')
                                     else None))))))))"

definition loads_basic :: "pystr \<Rightarrow> exn + pyval" where
  "loads_basic s =
     (case parse_value (Suc (length s)) s of
        None \<Rightarrow> Inl JSONDecodeError
      | Some (v, rest) \<Rightarrow> (if dropWhile json_space rest = [] then Inr v else Inl JSONDecodeError))"

definition rt_sample :: runtime where
  "rt_sample =
     \<lparr>str_lower = lower_basic, py_repr = repr_basic, json_dumps = dumps_basic,
      json_loads = loads_basic,
      chat_create = (\<lambda>request. Returns [Some [0x20, 0x58, 0xA]]),
      now_isoformat = ascii ''2025-01-01T12:00:00'',
      openai_model = ascii ''gpt-4.1-mini-2025-04-14''\<rparr>"

text \<open>
  The same runtime with a model that raises, with one that answers without text, and with
  one whose call is interrupted from the keyboard.
\<close>

definition rt_failing :: runtime where
  "rt_failing = rt_sample\<lparr>chat_create := (\<lambda>request. Raises APIError)\<rparr>"

definition rt_null :: runtime where
  "rt_null = rt_sample\<lparr>chat_create := (\<lambda>request. Returns [None])\<rparr>"


section \<open>Concrete inputs\<close>

text \<open>The two program names as the redirect message writes them.\<close>

definition program_name_ai :: pystr where
  "program_name_ai =
     [0x418, 0x441, 0x43A, 0x443, 0x441, 0x441, 0x442, 0x432, 0x435, 0x43D, 0x43D, 0x44B,
      0x439, 0x20, 0x438, 0x43D, 0x442, 0x435, 0x43B, 0x43B, 0x435, 0x43A, 0x442]"
  \<comment> \<open>Iskusstvennyj intellekt\<close>

definition program_name_ai_product :: pystr where
  "program_name_ai_product =
     [0x423, 0x43F, 0x440, 0x430, 0x432, 0x43B, 0x435, 0x43D, 0x438, 0x435, 0x20, 0x418, 0x418,
      0x2D, 0x43F, 0x440, 0x43E, 0x434, 0x443, 0x43A, 0x442, 0x430, 0x43C, 0x438, 0x2F, 0x41,
      0x49, 0x20, 0x50, 0x72, 0x6F, 0x64, 0x75, 0x63, 0x74]"
  \<comment> \<open>Upravlenie II-produktami/AI Product\<close>

text \<open>Questions.\<close>

definition q_weather :: pystr where
  "q_weather =
     [0x41A, 0x430, 0x43A, 0x430, 0x44F, 0x20, 0x441, 0x435, 0x433, 0x43E, 0x434, 0x43D, 0x44F,
      0x20, 0x43F, 0x43E, 0x433, 0x43E, 0x434, 0x430, 0x3F]"
  \<comment> \<open>Kakaya segodnya pogoda?\<close>

definition q_programs :: pystr where
  "q_programs =
     [0x427, 0x435, 0x43C, 0x20, 0x43E, 0x442, 0x43B, 0x438, 0x447, 0x430, 0x44E, 0x442, 0x441,
      0x44F, 0x20, 0x43F, 0x440, 0x43E, 0x433, 0x440, 0x430, 0x43C, 0x43C, 0x44B, 0x3F]"
  \<comment> \<open>Chem otlichayutsya programmy?\<close>

definition q_weather_itmo :: pystr where
  "q_weather_itmo =
     [0x41F, 0x43E, 0x433, 0x43E, 0x434, 0x430, 0x20, 0x432, 0x20, 0x418, 0x422, 0x41C, 0x41E]"
  \<comment> \<open>Pogoda v ITMO\<close>

definition q_three_tokens :: pystr where
  "q_three_tokens =
     [0x43D, 0x435, 0x442, 0x20, 0x43D, 0x435, 0x442, 0x20, 0x43D, 0x435, 0x442]"
  \<comment> \<open>net net net\<close>

definition q_neutral :: pystr where
  "q_neutral =
     [0x420, 0x430, 0x441, 0x441, 0x43A, 0x430, 0x436, 0x438, 0x442, 0x435, 0x20, 0x43F, 0x43E,
      0x434, 0x440, 0x43E, 0x431, 0x43D, 0x435, 0x435, 0x20, 0x43E, 0x20, 0x432, 0x43E, 0x437,
      0x43C, 0x43E, 0x436, 0x43D, 0x43E, 0x441, 0x442, 0x44F, 0x445, 0x20, 0x434, 0x430, 0x43D,
      0x43D, 0x43E, 0x433, 0x43E, 0x20, 0x43D, 0x430, 0x43F, 0x440, 0x430, 0x432, 0x43B, 0x435,
      0x43D, 0x438, 0x44F]"
  \<comment> \<open>Rasskazhite podrobnee o vozmozhnostyakh dannogo napravleniya\<close>

text \<open>
  A new assistant, and one whose database holds a profile and raises in its next two uses.
\<close>

definition w_new :: world where
  "w_new = \<lparr>store = init_database, model_calls = []\<rparr>"

definition w_faulty :: world where
  "w_faulty =
     \<lparr>store = init_database
        \<lparr>user_profiles_tbl :=
           [(12345, ascii ''test_user'', ascii ''{}'', ascii ''[1]'', ascii ''[]'', ascii ''[]'',
             None, ascii ''2025-01-01T12:00:00'', ascii ''2025-01-01T12:00:00'')],
         faults := [True, True]\<rparr>,
      model_calls = []\<rparr>"

text \<open>The request that \<open>get_response\<close> sends for \<open>q_programs\<close> on an empty database.\<close>

definition request_programs :: chat_request where
  "request_programs =
     \<lparr>model = ascii ''gpt-4.1-mini-2025-04-14'',
      messages = ask_messages [] [] q_programs,
      max_tokens = 1500, temperature = 7 / 10\<rparr>"

text \<open>
  A database whose program row holds a number in the list of career prospects, so that
  the join of the serializer raises; and a profile.
\<close>

definition w_ill_typed :: world where
  "w_ill_typed =
     \<lparr>store = init_database
        \<lparr>programs_tbl :=
           [(1, ascii ''AI'', ascii ''https://abit.itmo.ru/program/master/ai'', ascii ''ICS'',
             ascii ''2'', ascii ''ru'', ascii ''599000'', ascii ''first'',
             ascii ''[]'', ascii ''[1]'', ascii ''[]'', ascii ''[]'', ascii ''[]'', ascii ''[]'',
             ascii ''[]'', ascii ''2025-01-01T12:00:00'', ascii ''2025-01-01T12:00:00'')],
         programs_seq := 1\<rparr>,
      model_calls = []\<rparr>"


text \<open>Directions as the parser builds them: with a code, and with the code it did not find.\<close>

definition direction_coded :: "(pystr \<times> pyval) list" where
  "direction_coded =
     [(ascii ''name'', PStr (ascii ''Informatics'')),
      (ascii ''code'', PStr (ascii ''09.04.01'')),
      (ascii ''budget_places'', PInt 51),
      (ascii ''target_places'', PInt 4),
      (ascii ''contract_places'', PInt 55)]"

definition direction_uncoded :: "(pystr \<times> pyval) list" where
  "direction_uncoded =
     [(ascii ''name'', PStr (ascii ''Informatics'')),
      (ascii ''code'', PStr []),
      (ascii ''budget_places'', PInt 0),
      (ascii ''target_places'', PInt 0),
      (ascii ''contract_places'', PInt 0)]"

definition faq_six :: "(pystr \<times> pyval) list list" where
  "faq_six =
     map (\<lambda>n. [(ascii ''question'', PStr (ascii ''Q'' @ int_str n)),
                (ascii ''answer'', PStr (ascii ''A'' @ int_str n))])
       [1, 2, 3, 4, 5, 6]"

text \<open>Two programs of one name.\<close>

definition program_first :: program where
  "program_first =
     \<lparr>name = ascii ''AI Product'', url = ascii ''https://abit.itmo.ru/program/master/ai'',
      institute = ascii ''ICS'', duration = ascii ''2'', language = ascii ''ru'',
      cost = ascii ''599000'', description = ascii ''first'',
      directions = PList [PDict direction_coded],
      career_prospects = PList [PStr (ascii ''Data Engineer'')],
      partners = PList [PStr (ascii ''X5 Group'')],
      team = PList [PDict [(ascii ''name'', PStr (ascii ''Botov'')),
                           (ascii ''position'', PStr (ascii ''head''))]],
      admission_ways = PList [],
      faq = PList [PDict [(ascii ''question'', PStr (ascii ''Q?'')),
                          (ascii ''answer'', PStr (ascii ''A.''))]],
      exam_dates = PList [PStr (ascii ''29.07.2025, 11:00'')],
      created_at = ascii ''2025-01-01T12:00:00'', updated_at = ascii ''2025-01-01T12:00:00''\<rparr>"

definition program_second :: program where
  "program_second =
     program_first\<lparr>description := ascii ''second'', faq := PList [],
                    updated_at := ascii ''2025-02-01T12:00:00''\<rparr>"

text \<open>
  Two programs of different names: one with no directions and no FAQ, one with a
  direction and six FAQ entries; and the database that holds both, saved in that order.
\<close>

definition program_bare :: program where
  "program_bare =
     program_first\<lparr>name := ascii ''AI'', directions := PList [], faq := PList []\<rparr>"

definition program_full :: program where
  "program_full = program_first\<lparr>faq := PList (map PDict faq_six)\<rparr>"

definition db_two :: database where
  "db_two =
     snd (save_program rt_sample (snd (save_program rt_sample init_database program_bare))
            program_full)"

section \<open>Substrings and keyword loops\<close>

text \<open>
  The keyword loop returns exactly when some keyword of the list occurs in the text, and
  \<open>str_contains\<close> is the occurrence as a contiguous substring.
\<close>

lemma any_keyword_in_iff: "any_keyword_in ks s \<longleftrightarrow> (\<exists>k\<in>set ks. str_contains k s)"
  by (induction ks) auto

lemma starts_with_iff: "starts_with k s \<longleftrightarrow> (\<exists>suf. s = k @ suf)"
  by (induction k s rule: starts_with.induct) auto

lemma str_contains_iff: "str_contains k s \<longleftrightarrow> (\<exists>pre suf. s = pre @ k @ suf)"
proof (induction s)
  case Nil
  then show ?case by auto
next
  case (Cons c cs)
  show ?case
  proof
    assume "str_contains k (c # cs)"
    then consider "starts_with k (c # cs)" | "str_contains k cs" by auto
    then show "\<exists>pre suf. c # cs = pre @ k @ suf"
    proof cases
      case 1
      then obtain suf where "c # cs = k @ suf" using starts_with_iff by blast
      then have "c # cs = [] @ k @ suf" by simp
      then show ?thesis by blast
    next
      case 2
      then obtain pre suf where "cs = pre @ k @ suf" using Cons.IH by blast
      then have "c # cs = (c # pre) @ k @ suf" by simp
      then show ?thesis by blast
    qed
  next
    assume "\<exists>pre suf. c # cs = pre @ k @ suf"
    then obtain pre suf where e: "c # cs = pre @ k @ suf" by blast
    show "str_contains k (c # cs)"
    proof (cases pre)
      case Nil
      with e have "starts_with k (c # cs)" using starts_with_iff by auto
      then show ?thesis by simp
    next
      case (Cons p ps)
      with e have "cs = ps @ k @ suf" by simp
      then have "str_contains k cs" using Cons.IH by blast
      then show ?thesis by simp
    qed
  qed
qed

section \<open>Relevance classifier: exclusion precedence and the length fallback\<close>

text \<open>
  Claim C2. Whenever an exclusion keyword occurs as a substring of the lower-cased
  question, \<open>is_relevant_question\<close> returns false. Nothing is asked of the inclusion
  keywords, so the answer is false also when some of them occur.
\<close>

theorem exclusion_precedence:
  "\<exists>k\<in>set irrelevant_keywords. str_contains k (lower q) \<Longrightarrow> \<not> is_relevant_question lower q"
  by (simp add: is_relevant_question_def any_keyword_in_iff)

text \<open>
  The question \<open>q_weather_itmo\<close> holds the exclusion keyword \<open>pogoda\<close> and the inclusion
  keyword \<open>itmo\<close>, and is classified as not relevant.
\<close>

theorem exclusion_precedence_witness:
  "(\<exists>k\<in>set irrelevant_keywords. str_contains k (lower_basic q_weather_itmo)) \<and>
   (\<exists>k\<in>set relevant_keywords. str_contains k (lower_basic q_weather_itmo)) \<and>
   \<not> is_relevant_question lower_basic q_weather_itmo"
  using exclusion_precedence [of lower_basic q_weather_itmo]
  by (simp add: q_weather_itmo_def lower_basic_def lower_cp_def irrelevant_keywords_def
      relevant_keywords_def)

text \<open>
  Claim C3. When neither an exclusion nor an inclusion keyword occurs in the lower-cased
  question, \<open>is_relevant_question\<close> returns true exactly when the text has more than three
  white space separated tokens: false for at most three tokens, three included, and true
  for four or more.
\<close>

theorem length_fallback:
  assumes "\<not> (\<exists>k\<in>set irrelevant_keywords. str_contains k (lower q))"
    and "\<not> (\<exists>k\<in>set relevant_keywords. str_contains k (lower q))"
  shows "is_relevant_question lower q \<longleftrightarrow> 3 < length (py_split (lower q))"
  using assms by (auto simp add: is_relevant_question_def any_keyword_in_iff Let_def)

text \<open>A question of three tokens and one of six, both without a keyword.\<close>

lemma three_tokens_no_keyword:
  "\<not> (\<exists>k\<in>set irrelevant_keywords. str_contains k (lower_basic q_three_tokens))"
  "\<not> (\<exists>k\<in>set relevant_keywords. str_contains k (lower_basic q_three_tokens))"
  "length (py_split (lower_basic q_three_tokens)) = 3"
  by (simp_all add: q_three_tokens_def lower_basic_def lower_cp_def irrelevant_keywords_def
      relevant_keywords_def py_split_def py_isspace_def)

lemma neutral_no_keyword:
  "\<not> (\<exists>k\<in>set irrelevant_keywords. str_contains k (lower_basic q_neutral))"
  "\<not> (\<exists>k\<in>set relevant_keywords. str_contains k (lower_basic q_neutral))"
  "length (py_split (lower_basic q_neutral)) = 6"
  by (simp_all add: q_neutral_def lower_basic_def lower_cp_def irrelevant_keywords_def
      relevant_keywords_def py_split_def py_isspace_def)

theorem length_fallback_witness:
  "\<not> (\<exists>k\<in>set irrelevant_keywords. str_contains k (lower_basic q_three_tokens)) \<and>
   \<not> (\<exists>k\<in>set relevant_keywords. str_contains k (lower_basic q_three_tokens)) \<and>
   length (py_split (lower_basic q_three_tokens)) = 3 \<and>
   \<not> is_relevant_question lower_basic q_three_tokens \<and>
   \<not> (\<exists>k\<in>set irrelevant_keywords. str_contains k (lower_basic q_neutral)) \<and>
   \<not> (\<exists>k\<in>set relevant_keywords. str_contains k (lower_basic q_neutral)) \<and>
   length (py_split (lower_basic q_neutral)) = 6 \<and>
   is_relevant_question lower_basic q_neutral"
  using length_fallback [of lower_basic q_three_tokens]
    length_fallback [of lower_basic q_neutral]
    three_tokens_no_keyword neutral_no_keyword
  by simp

section \<open>Exceptions as values\<close>

lemma raised_Inl [simp]: "raised (Inl e)"
  by (simp add: raised_def)

lemma not_raised_Inr [simp]: "\<not> raised (Inr x)"
  by (simp add: raised_def)

lemma raised_iff: "raised m \<longleftrightarrow> (\<exists>e. m = Inl e)"
  by (cases m) simp_all

section \<open>Response pipeline: questions out of scope\<close>

lemma redirect_names_programs:
  "str_contains program_name_ai redirect_message"
  "str_contains program_name_ai_product redirect_message"
  by (simp_all add: program_name_ai_def program_name_ai_product_def redirect_message_def)

text \<open>
  Claim C1. For a question that \<open>is_relevant_question\<close> classifies as not relevant,
  \<open>get_response\<close> returns the fixed redirect message, which names both programs, and
  leaves the state as it was: no request is sent to the language model, and the record
  store, with its conversation log, is unchanged.
\<close>

theorem out_of_scope_redirect:
  assumes "\<not> is_relevant_question (str_lower rt) q"
  shows "get_response rt w q uid = (Returns redirect_message, w) \<and>
         str_contains program_name_ai redirect_message \<and>
         str_contains program_name_ai_product redirect_message"
  using assms by (simp add: get_response_def get_response_try_def redirect_names_programs)

lemma weather_not_relevant: "\<not> is_relevant_question (str_lower rt_sample) q_weather"
  by (simp add: is_relevant_question_def rt_sample_def q_weather_def lower_basic_def lower_cp_def
      irrelevant_keywords_def)

theorem out_of_scope_redirect_witness:
  "\<not> is_relevant_question (str_lower rt_sample) q_weather \<and>
   get_response rt_sample w_new q_weather 12345 = (Returns redirect_message, w_new)"
  using out_of_scope_redirect [OF weather_not_relevant, of w_new 12345] weather_not_relevant
  by simp

section \<open>Context serializer: the two formatters and the directions lines\<close>

text \<open>On a dict, one turn of either loop appends the text the specification describes.\<close>

lemma int_str_0: "int_str 0 = ascii ''0''"
  by (simp add: int_str_def ascii_def)

lemma direction_lines_dict: "direction_lines rt (PDict d) = Inr (direction_text rt d)"
  by (simp add: direction_lines_def direction_text_def code_text_def entry_text_def and_then_def
      py_str_def int_str_0 split: option.split)

lemma faq_lines_dict: "faq_lines rt (PDict d) = Inr (qa_text rt d)"
  by (simp add: faq_lines_def qa_text_def entry_text_def and_then_def py_str_def
      split: option.split)

text \<open>
  Whatever the element is, a turn that does not raise appends text that starts with
  \<open>-\<close> (directions) or \<open>Q\<close> (FAQ), and a loop only ever extends its result.
\<close>

lemma direction_lines_head: "direction_lines rt v = Inr l \<Longrightarrow> \<exists>t. l = 0x2D # t"
  by (cases v) (auto simp add: direction_lines_def and_then_def ascii_def)

lemma faq_lines_head: "faq_lines rt v = Inr l \<Longrightarrow> \<exists>t. l = 0x51 # t"
  by (cases v) (auto simp add: faq_lines_def and_then_def ascii_def)

lemma directions_loop_extends:
  "directions_loop rt acc ds = Inr r \<Longrightarrow> \<exists>suf. r = acc @ suf"
proof (induction ds arbitrary: acc)
  case Nil
  then show ?case by simp
next
  case (Cons d ds)
  then obtain l where l: "direction_lines rt d = Inr l"
    and rest: "directions_loop rt (acc @ l) ds = Inr r"
    by (auto split: sum.splits)
  from Cons.IH [OF rest] obtain suf where "r = (acc @ l) @ suf" by blast
  then show ?case by simp
qed

lemma faq_loop_extends:
  "faq_loop rt acc qs = Inr r \<Longrightarrow> \<exists>suf. r = acc @ suf"
proof (induction qs arbitrary: acc)
  case Nil
  then show ?case by simp
next
  case (Cons q qs)
  then obtain l where l: "faq_lines rt q = Inr l"
    and rest: "faq_loop rt (acc @ l) qs = Inr r"
    by (auto split: sum.splits)
  from Cons.IH [OF rest] obtain suf where "r = (acc @ l) @ suf" by blast
  then show ?case by simp
qed

lemma directions_loop_head:
  assumes "directions_loop rt [] (d # ds) = Inr r"
  shows "\<exists>t. r = 0x2D # t"
proof -
  from assms obtain l where l: "direction_lines rt d = Inr l"
    and rest: "directions_loop rt l ds = Inr r"
    by (auto split: sum.splits)
  from direction_lines_head [OF l] obtain t where "l = 0x2D # t" by blast
  moreover from directions_loop_extends [OF rest] obtain suf where "r = l @ suf" by blast
  ultimately show ?thesis by simp
qed

lemma faq_loop_head:
  assumes "faq_loop rt [] (q # qs) = Inr r"
  shows "\<exists>t. r = 0x51 # t"
proof -
  from assms obtain l where l: "faq_lines rt q = Inr l"
    and rest: "faq_loop rt l qs = Inr r"
    by (auto split: sum.splits)
  from faq_lines_head [OF l] obtain t where "l = 0x51 # t" by blast
  moreover from faq_loop_extends [OF rest] obtain suf where "r = l @ suf" by blast
  ultimately show ?thesis by simp
qed

lemma directions_loop_dicts:
  "directions_loop rt acc (map PDict ds) = Inr (acc @ concat (map (direction_text rt) ds))"
  by (induction ds arbitrary: acc) (simp_all add: direction_lines_dict)

lemma faq_loop_dicts:
  "faq_loop rt acc (map PDict qs) = Inr (acc @ concat (map (qa_text rt) qs))"
  by (induction qs arbitrary: acc) (simp_all add: faq_lines_dict)

lemma format_directions_list:
  "format_directions rt (PList ds) =
     (if ds = [] then Inr directions_not_found else directions_loop rt [] ds)"
  by (simp add: format_directions_def and_then_def)

lemma format_faq_list:
  "format_faq rt (PList qs) =
     (if qs = [] then Inr faq_not_found else faq_loop rt [] (take 5 qs))"
  by (simp add: format_faq_def and_then_def)

lemma directions_sentinel_iff:
  "format_directions rt (PList ds) = Inr directions_not_found \<longleftrightarrow> ds = []"
proof (cases ds)
  case Nil
  then show ?thesis by (simp add: format_directions_list)
next
  case (Cons d rest)
  have "directions_loop rt [] (d # rest) \<noteq> Inr directions_not_found"
  proof
    assume "directions_loop rt [] (d # rest) = Inr directions_not_found"
    from directions_loop_head [OF this] show False
      by (simp add: directions_not_found_def)
  qed
  with Cons show ?thesis by (simp add: format_directions_list)
qed

lemma directions_never_empty: "format_directions rt (PList ds) \<noteq> Inr []"
proof (cases ds)
  case Nil
  then show ?thesis by (simp add: format_directions_list directions_not_found_def)
next
  case (Cons d rest)
  have "directions_loop rt [] (d # rest) \<noteq> Inr []"
  proof
    assume "directions_loop rt [] (d # rest) = Inr []"
    from directions_loop_head [OF this] show False by simp
  qed
  with Cons show ?thesis by (simp add: format_directions_list)
qed

lemma faq_sentinel_iff:
  "format_faq rt (PList qs) = Inr faq_not_found \<longleftrightarrow> qs = []"
proof (cases qs)
  case Nil
  then show ?thesis by (simp add: format_faq_list)
next
  case (Cons q rest)
  have "faq_loop rt [] (q # take 4 rest) \<noteq> Inr faq_not_found"
  proof
    assume "faq_loop rt [] (q # take 4 rest) = Inr faq_not_found"
    from faq_loop_head [OF this] show False
      by (simp add: faq_not_found_def)
  qed
  with Cons show ?thesis by (simp add: format_faq_list)
qed

text \<open>
  Claim C9, as amended. For a non-empty directions list of dicts, the rendered text is
  one line pair per direction, in order: the name, the code in parentheses as stored
  (the placeholder \<open>N/A\<close> when the direction has no \<open>code\<close> entry), then the budget,
  target and contract place counts.
\<close>

theorem directions_rendering:
  "format_directions rt (PList (map PDict ds)) =
     Inr (if ds = [] then directions_not_found else concat (map (direction_text rt) ds))"
  by (simp add: format_directions_list directions_loop_dicts)

theorem directions_rendering_witness:
  "format_directions rt_sample (PList (map PDict [direction_coded, direction_uncoded, [(ascii ''name'', PStr (ascii ''Innovatics''))]])) =
     Inr (ascii ''- Informatics (09.04.01)'' @ [0xA] @
          label_budget @ ascii ''51, '' @ label_target @ ascii ''4, '' @
          label_contract @ ascii ''55'' @ [0xA] @
          ascii ''- Informatics ()'' @ [0xA] @
          label_budget @ ascii ''0, '' @ label_target @ ascii ''0, '' @
          label_contract @ ascii ''0'' @ [0xA] @
          ascii ''- Innovatics (N/A)'' @ [0xA] @
          label_budget @ ascii ''0, '' @ label_target @ ascii ''0, '' @
          label_contract @ ascii ''0'' @ [0xA])"
  using directions_rendering [of rt_sample "[direction_coded, direction_uncoded, [(ascii ''name'', PStr (ascii ''Innovatics''))]]"]
  by (simp add: direction_coded_def direction_uncoded_def direction_text_def code_text_def
      entry_text_def py_str_def ascii_def int_str_def)

text \<open>
  Claim C9 as stated fails: a direction whose code is the empty string, which is what the
  parser stores when it finds no code, is rendered with empty parentheses and without
  the placeholder.
\<close>

theorem empty_code_counterexample:
  "map_of direction_uncoded (ascii ''code'') = Some (PStr []) \<and>
   format_directions rt_sample (PList [PDict direction_uncoded]) =
     Inr (ascii ''- Informatics ()'' @ [0xA] @
          label_budget @ ascii ''0, '' @ label_target @ ascii ''0, '' @
          label_contract @ ascii ''0'' @ [0xA]) \<and>
   \<not> str_contains (ascii ''N/A'')
        (ascii ''- Informatics ()'' @ [0xA] @
         label_budget @ ascii ''0, '' @ label_target @ ascii ''0, '' @
         label_contract @ ascii ''0'' @ [0xA])"
  by (simp add: direction_uncoded_def format_directions_def and_then_def direction_lines_def
      py_str_def ascii_def int_str_def label_budget_def label_target_def label_contract_def)

section \<open>Response pipeline: failures, success and the conversation log\<close>

text \<open>The readers of the store change nothing but the pending faults.\<close>

lemma snd_sqlite_connect: "snd (sqlite_connect db) = db\<lparr>faults := tl (faults db)\<rparr>"
  by (simp add: sqlite_connect_def split: list.split)

lemma fst_sqlite_connect: "fst (sqlite_connect db) = (\<not> engine_fails_at db 0)"
  by (auto simp add: sqlite_connect_def engine_fails_at_def split: list.split)

lemma snd_get_user_profile:
  "snd (get_user_profile rt db uid) = db\<lparr>faults := tl (faults db)\<rparr>"
  using snd_sqlite_connect [of db]
  by (cases "sqlite_connect db")
     (auto simp add: get_user_profile_def split: bool.splits list.splits sum.splits)

lemma snd_get_all_programs:
  "snd (get_all_programs rt db) = db\<lparr>faults := tl (faults db)\<rparr>"
  using snd_sqlite_connect [of db]
  by (cases "sqlite_connect db") (auto simp add: get_all_programs_def split: bool.splits)

lemma snd_get_programs_context:
  "snd (get_programs_context rt db) = db\<lparr>faults := tl (faults db)\<rparr>"
  using snd_get_all_programs [of rt db]
  by (cases "get_all_programs rt db") (simp add: get_programs_context_def)

lemma save_conversation_log:
  "conversations_tbl (snd (save_conversation db uid m r t)) =
     conversations_tbl db @
       (if engine_fails_at db 0 then [] else [(conversations_seq db + 1, uid, m, r, t)])"
  by (auto simp add: save_conversation_def sqlite_connect_def engine_fails_at_def Let_def
      split: list.split)

lemma engine_fails_at_tl: "engine_fails_at (db\<lparr>faults := tl (faults db)\<rparr>) k = engine_fails_at db (Suc k)"
  by (cases "faults db") (auto simp add: engine_fails_at_def)


lemma engine_fails_at_tl_tl:
  "engine_fails_at (db\<lparr>faults := tl (tl (faults db))\<rparr>) 0 = engine_fails_at db 2"
proof (cases "faults db")
  case Nil
  then show ?thesis by (simp add: engine_fails_at_def)
next
  case (Cons f fs)
  then show ?thesis by (cases fs) (auto simp add: engine_fails_at_def)
qed

text \<open>What \<open>response.choices[0].message.content.strip()\<close> can do.\<close>

lemma response_text_cases:
  "(raised (response_text resp) \<and> (resp = [] \<or> (\<exists>others. resp = None # others))) \<or>
   (\<exists>txt others. resp = Some txt # others \<and> response_text resp = Inr (py_strip txt))"
  by (cases resp) (auto simp add: response_text_def raised_def split: option.splits)

text \<open>
  The runs of the \<open>try\<close> block on a relevant question: either the serialization raised
  and the model was not called, or exactly one request was sent; then the call was
  interrupted, or the call or the reading of its response raised, or the stripped text
  was returned and \<open>save_conversation\<close> ran once.
\<close>

lemma get_response_try_outcome:
  assumes rel: "is_relevant_question (str_lower rt) q"
    and run: "get_response_try rt w q uid = (res, w')"
  shows "(serialization_raises rt (store w) uid \<and> (\<exists>e. res = Raises e) \<and>
          model_calls w' = model_calls w \<and>
          conversations_tbl (store w') = conversations_tbl (store w)) \<or>
         (\<exists>req. \<not> serialization_raises rt (store w) uid \<and>
            model_calls w' = model_calls w @ [req] \<and>
            ((\<exists>i. chat_create rt req = Interrupts i \<and> res = Interrupts i \<and>
                conversations_tbl (store w') = conversations_tbl (store w)) \<or>
             (model_fails rt req \<and> (\<exists>e. res = Raises e) \<and>
              conversations_tbl (store w') = conversations_tbl (store w)) \<or>
             (\<exists>reply others. chat_create rt req = Returns (Some reply # others) \<and>
                res = Returns (py_strip reply) \<and>
                conversations_tbl (store w') =
                  conversations_tbl (store w) @
                    (if engine_fails_at (store w) 2 then []
                     else [(conversations_seq (store w) + 1, uid, q, py_strip reply,
                            now_isoformat rt)]))))"
proof -
  define db0 where "db0 = store w"
  define db1 where "db1 = db0\<lparr>faults := tl (faults db0)\<rparr>"
  define db2 where "db2 = db1\<lparr>faults := tl (faults db1)\<rparr>"
  obtain profile where gp: "get_user_profile rt (store w) uid = (profile, db1)"
    using snd_get_user_profile [of rt "store w" uid]
    by (cases "get_user_profile rt (store w) uid") (simp add: db1_def db0_def)
  obtain ctx where gc: "get_programs_context rt db1 = (ctx, db2)"
    using snd_get_programs_context [of rt db1]
    by (cases "get_programs_context rt db1") (simp add: db2_def)
  have conv1: "conversations_tbl db1 = conversations_tbl (store w)"
    and conv2: "conversations_tbl db2 = conversations_tbl (store w)"
    and seq2: "conversations_seq db2 = conversations_seq (store w)"
    by (simp_all add: db2_def db1_def db0_def)
  have f2: "engine_fails_at db2 0 = engine_fails_at (store w) 2"
    by (simp add: db2_def db1_def db0_def engine_fails_at_tl_tl)
  define pc where "pc = (case profile of None \<Rightarrow> Inr [] | Some up \<Rightarrow> profile_context_of up)"
  show ?thesis
  proof (cases pc)
    case (Inl e)
    then have pce: "(case profile of None \<Rightarrow> Inr [] | Some up \<Rightarrow> profile_context_of up) = Inl e"
      by (simp add: pc_def)
    have "get_response_try rt w q uid = (Raises e, w\<lparr>store := db1\<rparr>)"
      using rel gp by (simp add: get_response_try_def pce)
    with run have "res = Raises e" "w' = w\<lparr>store := db1\<rparr>" by simp_all
    moreover have "serialization_raises rt (store w) uid"
      using gp pce by (auto simp add: serialization_raises_def split: option.splits)
    ultimately show ?thesis by (simp add: conv1)
  next
    case (Inr profile_context)
    then have pcr: "(case profile of None \<Rightarrow> Inr [] | Some up \<Rightarrow> profile_context_of up) =
        Inr profile_context"
      by (simp add: pc_def)
    show ?thesis
    proof (cases ctx)
      case (Inl e)
      have "get_response_try rt w q uid = (Raises e, w\<lparr>store := db2\<rparr>)"
        using rel gp gc Inl by (simp add: get_response_try_def pcr)
      with run have "res = Raises e" "w' = w\<lparr>store := db2\<rparr>" by simp_all
      moreover have "serialization_raises rt (store w) uid"
        using gp gc Inl by (simp add: serialization_raises_def)
      ultimately show ?thesis by (simp add: conv2)
    next
      case cr: (Inr programs_context)
      define req where
        "req = \<lparr>model = openai_model rt,
                 messages = ask_messages programs_context profile_context q,
                 max_tokens = 1500, temperature = 7 / 10\<rparr>"
      define w3 where "w3 = w\<lparr>store := db2, model_calls := model_calls w @ [req]\<rparr>"
      have cm: "call_model rt (w\<lparr>store := db2\<rparr>)
                  (ask_messages programs_context profile_context q) 1500 (7 / 10) =
                (chat_create rt req, w3)"
        by (simp add: call_model_def req_def w3_def Let_def)
      have sw3: "store w3 = db2"
        by (simp add: w3_def)
      have try_eq: "get_response_try rt w q uid =
          (case chat_create rt req of
             Interrupts i \<Rightarrow> (Interrupts i, w3)
           | Raises e \<Rightarrow> (Raises e, w3)
           | Returns response \<Rightarrow>
               (case response_text response of
                  Inl e \<Rightarrow> (Raises e, w3)
                | Inr ai_response \<Rightarrow>
                    (Returns ai_response,
                     w3\<lparr>store := snd (save_conversation db2 uid q ai_response
                                        (now_isoformat rt))\<rparr>)))"
        using rel gp gc cr cm sw3
        by (auto simp add: get_response_try_def pcr split: sum.splits prod.splits outcome.splits)
      have ser: "\<not> serialization_raises rt (store w) uid"
        using gp gc cr pcr by (auto simp add: serialization_raises_def split: option.splits)
      have calls3: "model_calls w3 = model_calls w @ [req]"
        and conv3: "conversations_tbl (store w3) = conversations_tbl (store w)"
        by (simp_all add: w3_def conv2)
      show ?thesis
      proof (cases "chat_create rt req")
        case (Interrupts i)
        with run try_eq have "res = Interrupts i" "w' = w3" by simp_all
        with Interrupts calls3 conv3 ser show ?thesis by blast
      next
        case (Raises e)
        with run try_eq have "res = Raises e" "w' = w3" by simp_all
        moreover have "model_fails rt req"
          using Raises by (simp add: model_fails_def)
        ultimately show ?thesis using calls3 conv3 ser by blast
      next
        case resp: (Returns response)
        from response_text_cases [of response] show ?thesis
        proof
          assume bad: "raised (response_text response) \<and>
                       (response = [] \<or> (\<exists>others. response = None # others))"
          then obtain e where e: "response_text response = Inl e"
            by (auto simp add: raised_iff)
          with run try_eq resp have "res = Raises e" "w' = w3" by simp_all
          moreover have "model_fails rt req"
            using resp bad by (simp add: model_fails_def)
          ultimately show ?thesis using calls3 conv3 ser by blast
        next
          assume "\<exists>reply others. response = Some reply # others \<and>
                    response_text response = Inr (py_strip reply)"
          then obtain reply others where r: "response = Some reply # others"
            and t: "response_text response = Inr (py_strip reply)" by blast
          from run try_eq resp t have res: "res = Returns (py_strip reply)"
            and w': "w' = w3\<lparr>store := snd (save_conversation db2 uid q (py_strip reply)
                                               (now_isoformat rt))\<rparr>"
            by simp_all
          have "model_calls w' = model_calls w @ [req]"
            by (simp add: w' w3_def)
          moreover have "conversations_tbl (store w') =
              conversations_tbl (store w) @
                (if engine_fails_at (store w) 2 then []
                 else [(conversations_seq (store w) + 1, uid, q, py_strip reply,
                        now_isoformat rt)])"
            by (simp add: w' save_conversation_log conv2 seq2 f2)
          moreover have "chat_create rt req = Returns (Some reply # others)"
            using resp r by simp
          ultimately show ?thesis using res ser by blast
        qed
      qed
    qed
  qed
qed

lemma get_response_cases:
  assumes "get_response rt w q uid = (r, w')"
  obtains res where "get_response_try rt w q uid = (res, w')"
    and "r = (case res of Returns a \<Rightarrow> Returns a | Raises e \<Rightarrow> Returns apology_message
              | Interrupts i \<Rightarrow> Interrupts i)"
  using assms
  by (cases "get_response_try rt w q uid")
     (auto simp add: get_response_def split: outcome.splits)

lemma calls_made:
  assumes "model_calls w' = model_calls w @ reqs" and "req \<in> set reqs"
    and "model_calls w' = model_calls w @ [req']"
  shows "reqs = [req] \<and> req' = req"
  using assms by auto

text \<open>
  Claim C4. On a relevant question, when the request that \<open>get_response\<close> sends to the
  language model raises, the result is the fixed apology, that request is the only one
  sent (no retry), and the conversation log is as before.
\<close>

theorem model_failure_apology:
  assumes "is_relevant_question (str_lower rt) q"
    and "get_response rt w q uid = (r, w')"
    and "model_calls w' = model_calls w @ reqs"
    and "req \<in> set reqs"
    and "chat_create rt req = Raises e"
  shows "r = Returns apology_message \<and> reqs = [req] \<and>
         conversations_tbl (store w') = conversations_tbl (store w)"
proof -
  from assms(2) obtain res where run: "get_response_try rt w q uid = (res, w')"
    and r: "r = (case res of Returns a \<Rightarrow> Returns a | Raises e \<Rightarrow> Returns apology_message
                 | Interrupts i \<Rightarrow> Interrupts i)"
    by (rule get_response_cases)
  from get_response_try_outcome [OF assms(1) run] show ?thesis
  proof (elim disjE exE conjE)
    assume "model_calls w' = model_calls w"
    with assms(3,4) show ?thesis by simp
  next
    fix req' i
    assume calls: "model_calls w' = model_calls w @ [req']"
      and "chat_create rt req' = Interrupts i"
    moreover from calls_made [OF assms(3,4) calls] have "req' = req" by simp
    ultimately show ?thesis using assms(5) by simp
  next
    fix req' e'
    assume calls: "model_calls w' = model_calls w @ [req']"
      and "res = Raises e'"
      and log: "conversations_tbl (store w') = conversations_tbl (store w)"
    from calls_made [OF assms(3,4) calls] have "reqs = [req]" by simp
    moreover from \<open>res = Raises e'\<close> r have "r = Returns apology_message" by simp
    ultimately show ?thesis using log by simp
  next
    fix req' reply others
    assume calls: "model_calls w' = model_calls w @ [req']"
      and ok: "chat_create rt req' = Returns (Some reply # others)"
    from calls_made [OF assms(3,4) calls] have "req' = req" by simp
    with ok assms(5) show ?thesis by simp
  qed
qed

text \<open>
  Claim C5. On a relevant question, when the request sent to the language model is
  answered with a text, \<open>get_response\<close> returns the stripped text, sends no other
  request, and appends exactly one row to the conversation log: the user id, the literal
  question, the stripped text and the time stamp. (The one write is the third use of the
  database engine in the call; should the engine raise there, \<open>save_conversation\<close>
  absorbs it and the log stays as it was.)
\<close>

theorem success_logs_once:
  assumes "is_relevant_question (str_lower rt) q"
    and "get_response rt w q uid = (r, w')"
    and "model_calls w' = model_calls w @ reqs"
    and "req \<in> set reqs"
    and "chat_create rt req = Returns (Some reply # others)"
  shows "r = Returns (py_strip reply) \<and> reqs = [req] \<and>
         conversations_tbl (store w') =
           conversations_tbl (store w) @
             (if engine_fails_at (store w) 2 then []
              else [(conversations_seq (store w) + 1, uid, q, py_strip reply,
                     now_isoformat rt)])"
proof -
  from assms(2) obtain res where run: "get_response_try rt w q uid = (res, w')"
    and r: "r = (case res of Returns a \<Rightarrow> Returns a | Raises e \<Rightarrow> Returns apology_message
                 | Interrupts i \<Rightarrow> Interrupts i)"
    by (rule get_response_cases)
  have ok: "\<not> model_fails rt req"
    using assms(5) by (simp add: model_fails_def response_text_def)
  from get_response_try_outcome [OF assms(1) run] show ?thesis
  proof (elim disjE exE conjE)
    assume "model_calls w' = model_calls w"
    with assms(3,4) show ?thesis by simp
  next
    fix req' i
    assume calls: "model_calls w' = model_calls w @ [req']"
      and "chat_create rt req' = Interrupts i"
    moreover from calls_made [OF assms(3,4) calls] have "req' = req" by simp
    ultimately show ?thesis using assms(5) by simp
  next
    fix req'
    assume calls: "model_calls w' = model_calls w @ [req']"
      and bad: "model_fails rt req'"
    from calls_made [OF assms(3,4) calls] have "req' = req" by simp
    with bad ok show ?thesis by simp
  next
    fix req' reply' others'
    assume calls: "model_calls w' = model_calls w @ [req']"
      and got: "chat_create rt req' = Returns (Some reply' # others')"
      and res: "res = Returns (py_strip reply')"
      and log: "conversations_tbl (store w') =
                  conversations_tbl (store w) @
                    (if engine_fails_at (store w) 2 then []
                     else [(conversations_seq (store w) + 1, uid, q, py_strip reply',
                            now_isoformat rt)])"
    from calls_made [OF assms(3,4) calls] have eq: "reqs = [req]" "req' = req" by simp_all
    with got assms(5) have "reply' = reply" by simp
    with res r log eq show ?thesis by simp
  qed
qed

text \<open>
  Claim C10, as amended. On a relevant question \<open>get_response\<close> returns the one fixed
  apology, and writes no log row, whenever an exception is raised inside its own \<open>try\<close>
  block: by the serialization of the profile or of the programs, by the model call, or
  by a response without choices or without content. The causes cannot be told apart
  from the returned text.
\<close>

theorem internal_failures_apology:
  assumes "is_relevant_question (str_lower rt) q"
    and "get_response rt w q uid = (r, w')"
    and "serialization_raises rt (store w) uid \<or>
         (\<exists>req\<in>set (drop (length (model_calls w)) (model_calls w')). model_fails rt req)"
  shows "r = Returns apology_message \<and>
         conversations_tbl (store w') = conversations_tbl (store w)"
proof -
  from assms(2) obtain res where run: "get_response_try rt w q uid = (res, w')"
    and r: "r = (case res of Returns a \<Rightarrow> Returns a | Raises e \<Rightarrow> Returns apology_message
                 | Interrupts i \<Rightarrow> Interrupts i)"
    by (rule get_response_cases)
  from get_response_try_outcome [OF assms(1) run] show ?thesis
  proof (elim disjE exE conjE)
    fix e
    assume "res = Raises e"
      and "conversations_tbl (store w') = conversations_tbl (store w)"
    with r show ?thesis by simp
  next
    fix req' i
    assume ser: "\<not> serialization_raises rt (store w) uid"
      and calls: "model_calls w' = model_calls w @ [req']"
      and got: "chat_create rt req' = Interrupts i"
    from got have "\<not> model_fails rt req'"
      by (simp add: model_fails_def)
    with assms(3) ser calls show ?thesis by simp
  next
    fix req' e
    assume "res = Raises e"
      and "conversations_tbl (store w') = conversations_tbl (store w)"
    with r show ?thesis by simp
  next
    fix req' reply others
    assume ser: "\<not> serialization_raises rt (store w) uid"
      and calls: "model_calls w' = model_calls w @ [req']"
      and got: "chat_create rt req' = Returns (Some reply # others)"
    from got have "\<not> model_fails rt req'"
      by (simp add: model_fails_def response_text_def)
    with assms(3) ser calls show ?thesis by simp
  qed
qed

text \<open>Runs on concrete inputs.\<close>

lemma programs_relevant: "is_relevant_question lower_basic q_programs"
  by (simp add: is_relevant_question_def q_programs_def lower_basic_def lower_cp_def
      irrelevant_keywords_def relevant_keywords_def)

lemma empty_store_reads:
  "get_user_profile rt init_database uid = (None, init_database)"
  "get_programs_context rt init_database = (Inr [], init_database)"
  by (simp_all add: get_user_profile_def get_programs_context_def get_all_programs_def
      sqlite_connect_def init_database_def)

lemma empty_store_write:
  "save_conversation init_database uid m r t =
     (True, init_database\<lparr>conversations_tbl := [(1, uid, m, r, t)], conversations_seq := 1\<rparr>)"
  by (simp add: save_conversation_def sqlite_connect_def init_database_def)

lemma strip_sample: "py_strip [0x20, 0x58, 0xA] = [0x58]"
  by (simp add: py_strip_def py_isspace_def)

lemma run_failing:
  "get_response rt_failing w_new q_programs 12345 =
     (Returns apology_message, w_new\<lparr>model_calls := [request_programs]\<rparr>)"
  by (simp add: get_response_def get_response_try_def rt_failing_def rt_sample_def
      programs_relevant w_new_def empty_store_reads call_model_def request_programs_def)

lemma run_null:
  "get_response rt_null w_new q_programs 12345 =
     (Returns apology_message, w_new\<lparr>model_calls := [request_programs]\<rparr>)"
  by (simp add: get_response_def get_response_try_def rt_null_def rt_sample_def
      programs_relevant w_new_def empty_store_reads call_model_def request_programs_def
      response_text_def)

lemma run_sample:
  "get_response rt_sample w_new q_programs 12345 =
     (Returns [0x58],
      \<lparr>store = init_database
         \<lparr>conversations_tbl :=
            [(1, 12345, q_programs, [0x58], ascii ''2025-01-01T12:00:00'')],
          conversations_seq := 1\<rparr>,
       model_calls = [request_programs]\<rparr>)"
  by (simp add: get_response_def get_response_try_def rt_sample_def
      programs_relevant w_new_def empty_store_reads call_model_def request_programs_def
      response_text_def strip_sample empty_store_write)

theorem model_failure_apology_witness:
  "is_relevant_question (str_lower rt_failing) q_programs \<and>
   get_response rt_failing w_new q_programs 12345 =
     (Returns apology_message, w_new\<lparr>model_calls := [request_programs]\<rparr>) \<and>
   chat_create rt_failing request_programs = Raises APIError \<and>
   conversations_tbl (store (w_new\<lparr>model_calls := [request_programs]\<rparr>)) =
     conversations_tbl (store w_new)"
  using model_failure_apology [of rt_failing q_programs w_new 12345 "Returns apology_message"
      "w_new\<lparr>model_calls := [request_programs]\<rparr>" "[request_programs]" request_programs
      APIError]
    run_failing programs_relevant
  by (simp add: rt_failing_def rt_sample_def w_new_def)

theorem success_logs_once_witness:
  "is_relevant_question (str_lower rt_sample) q_programs \<and>
   chat_create rt_sample request_programs = Returns [Some [0x20, 0x58, 0xA]] \<and>
   \<not> engine_fails_at (store w_new) 2 \<and>
   fst (get_response rt_sample w_new q_programs 12345) = Returns [0x58] \<and>
   model_calls (snd (get_response rt_sample w_new q_programs 12345)) = [request_programs] \<and>
   conversations_tbl (store (snd (get_response rt_sample w_new q_programs 12345))) =
     [(1, 12345, q_programs, [0x58], ascii ''2025-01-01T12:00:00'')]"
  using success_logs_once [of rt_sample q_programs w_new 12345
      "fst (get_response rt_sample w_new q_programs 12345)"
      "snd (get_response rt_sample w_new q_programs 12345)"
      "[request_programs]" request_programs "[0x20, 0x58, 0xA]" "[]"]
    run_sample programs_relevant
  by (simp add: rt_sample_def w_new_def init_database_def engine_fails_at_def strip_sample)

lemma loads_samples:
  "loads_basic (ascii ''[]'') = Inr (PList [])"
  "loads_basic (ascii ''[1]'') = Inr (PList [PInt 1])"
  by code_simp+

lemma ill_typed_context:
  "get_programs_context rt_sample (store w_ill_typed) = (Inl TypeError, store w_ill_typed)"
  by (simp add: get_programs_context_def get_all_programs_def sqlite_connect_def
      w_ill_typed_def init_database_def row_to_program_def rt_sample_def loads_samples
      and_then_def program_block_def format_directions_def py_join_def)

lemma ill_typed_profile:
  "get_user_profile rt_sample (store w_ill_typed) 12345 = (None, store w_ill_typed)"
  by (simp add: get_user_profile_def sqlite_connect_def w_ill_typed_def init_database_def)

lemma ill_typed_raises: "serialization_raises rt_sample (store w_ill_typed) 12345"
  by (simp add: serialization_raises_def ill_typed_profile ill_typed_context)

lemma run_ill_typed:
  "get_response rt_sample w_ill_typed q_programs 12345 =
     (Returns apology_message, w_ill_typed)"
proof -
  have "str_lower rt_sample = lower_basic"
    by (simp add: rt_sample_def)
  then show ?thesis
    by (simp add: get_response_def get_response_try_def programs_relevant ill_typed_profile
        ill_typed_context)
qed

theorem internal_failures_apology_witness:
  "serialization_raises rt_sample (store w_ill_typed) 12345 \<and>
   get_response rt_sample w_ill_typed q_programs 12345 =
     (Returns apology_message, w_ill_typed) \<and>
   model_fails rt_null request_programs \<and>
   get_response rt_null w_new q_programs 12345 =
     (Returns apology_message, w_new\<lparr>model_calls := [request_programs]\<rparr>)"
  using internal_failures_apology [of rt_sample q_programs w_ill_typed 12345
      "fst (get_response rt_sample w_ill_typed q_programs 12345)"
      "snd (get_response rt_sample w_ill_typed q_programs 12345)"]
    internal_failures_apology [of rt_null q_programs w_new 12345
      "fst (get_response rt_null w_new q_programs 12345)"
      "snd (get_response rt_null w_new q_programs 12345)"]
    ill_typed_raises run_ill_typed run_null programs_relevant
  by (simp add: rt_null_def rt_sample_def w_new_def model_fails_def response_text_def)

text \<open>
  Claim C10 as stated fails for the reads of the record store: \<open>get_user_profile\<close> and
  \<open>get_all_programs\<close> absorb their own exceptions. With a database that raises in both
  reads, the profile is absent and the program list empty, the model is still called,
  and its answer is returned instead of the apology.
\<close>

theorem store_failure_counterexample:
  "engine_fails_at (store w_faulty) 0 \<and> engine_fails_at (store w_faulty) 1 \<and>
   is_relevant_question (str_lower rt_sample) q_programs \<and>
   fst (get_user_profile rt_sample (store w_faulty) 12345) = None \<and>
   fst (get_all_programs rt_sample (snd (get_user_profile rt_sample (store w_faulty) 12345))) = [] \<and>
   fst (get_response rt_sample w_faulty q_programs 12345) = Returns [0x58] \<and>
   fst (get_response rt_sample w_faulty q_programs 12345) \<noteq> Returns apology_message"
proof -
  have lower: "str_lower rt_sample = lower_basic"
    by (simp add: rt_sample_def)
  have p: "get_user_profile rt_sample (store w_faulty) 12345 =
             (None, (store w_faulty)\<lparr>faults := [True]\<rparr>)"
    by (simp add: get_user_profile_def sqlite_connect_def w_faulty_def init_database_def)
  have a: "get_all_programs rt_sample ((store w_faulty)\<lparr>faults := [True]\<rparr>) =
             ([], (store w_faulty)\<lparr>faults := []\<rparr>)"
    by (simp add: get_all_programs_def sqlite_connect_def)
  have c: "get_programs_context rt_sample ((store w_faulty)\<lparr>faults := [True]\<rparr>) =
             (Inr [], (store w_faulty)\<lparr>faults := []\<rparr>)"
    by (simp add: get_programs_context_def a)
  have chat: "chat_create rt_sample = (\<lambda>request. Returns [Some [0x20, 0x58, 0xA]])"
    by (simp add: rt_sample_def)
  have r: "fst (get_response rt_sample w_faulty q_programs 12345) = Returns [0x58]"
    by (simp add: get_response_def get_response_try_def lower programs_relevant p c
        call_model_def response_text_def strip_sample chat
        split: prod.splits)
  have f: "engine_fails_at (store w_faulty) 0" "engine_fails_at (store w_faulty) 1"
    by (simp_all add: engine_fails_at_def w_faulty_def)
  have "apology_message \<noteq> [0x58]"
    by (simp add: apology_message_def)
  with r f p a lower programs_relevant show ?thesis by simp
qed

section \<open>The four public operations: what the caller gets\<close>


















section \<open>Record store: saving and reading a program\<close>

lemma save_program_ok:
  assumes "faults db = []"
  shows "save_program rt db p =
           (True, db\<lparr>programs_tbl :=
                        filter (\<lambda>r. row_name r \<noteq> name p) (programs_tbl db) @
                          [program_row rt (programs_seq db + 1) p],
                      programs_seq := programs_seq db + 1\<rparr>)"
  using assms by (simp add: save_program_def sqlite_connect_def program_row_def Let_def)

lemma row_name_program_row [simp]: "row_name (program_row rt rid p) = name p"
  by (simp add: row_name_def program_row_def)

lemma row_to_program_row:
  assumes "json_round_trips rt p"
  shows "row_to_program rt (program_row rt rid p) = Inr p"
  using assms
  by (simp add: json_round_trips_def row_to_program_def program_row_def and_then_def)

lemma row_to_program_name:
  assumes "row_to_program rt row = Inr x"
  shows "name x = row_name row"
  using assms
  by (cases row)
     (auto simp add: row_to_program_def row_name_def and_then_def split: sum.splits)

lemma programs_loop_readable:
  assumes "list_all (readable rt) rows"
  shows "programs_loop rt acc rows = acc @ map (\<lambda>row. projr (row_to_program rt row)) rows"
  using assms
proof (induction rows arbitrary: acc)
  case Nil
  then show ?case by simp
next
  case (Cons row rows)
  then obtain x where x: "row_to_program rt row = Inr x"
    by (cases "row_to_program rt row") (simp_all add: readable_def)
  with Cons show ?case by simp
qed

lemma readable_name:
  assumes "readable rt row"
  shows "name (projr (row_to_program rt row)) = row_name row"
proof -
  from assms obtain x where x: "row_to_program rt row = Inr x"
    by (cases "row_to_program rt row") (simp_all add: readable_def)
  with row_to_program_name [OF x] show ?thesis by simp
qed

lemma others_filtered:
  assumes "list_all (readable rt) rows"
  shows "filter (\<lambda>x. name x = n)
           (map (\<lambda>row. projr (row_to_program rt row)) (filter (\<lambda>r. row_name r \<noteq> n) rows)) = []"
  using assms
  by (induction rows) (auto simp add: readable_name)

lemma get_program_after_save:
  assumes "faults db = []" and "json_round_trips rt p"
  shows "fst (get_program rt (snd (save_program rt db p)) (name p)) = Some p"
proof -
  define db1 where "db1 = snd (save_program rt db p)"
  have tbl: "programs_tbl db1 =
      filter (\<lambda>r. row_name r \<noteq> name p) (programs_tbl db) @
        [program_row rt (programs_seq db + 1) p]"
    and f: "faults db1 = []"
    using assms(1) by (simp_all add: db1_def save_program_ok)
  have "filter (\<lambda>r. row_name r = name p) (programs_tbl db1) =
          [program_row rt (programs_seq db + 1) p]"
    by (simp add: tbl)
  then show ?thesis
    using f row_to_program_row [OF assms(2)]
    by (simp add: get_program_def sqlite_connect_def db1_def [symmetric])
qed

lemma table_after_two_saves:
  assumes "faults db = []" and "name p2 = name p"
  shows "programs_tbl (snd (save_program rt (snd (save_program rt db p)) p2)) =
           filter (\<lambda>r. row_name r \<noteq> name p) (programs_tbl db) @
             [program_row rt (programs_seq db + 2) p2]"
    and "faults (snd (save_program rt (snd (save_program rt db p)) p2)) = []"
  using assms by (simp_all add: save_program_ok add.commute)

text \<open>
  Claim C7. With a database engine that raises no error and a program whose structured
  fields JSON gives back as they were, \<open>save_program\<close> succeeds and \<open>get_program\<close> with
  the same name returns a record equal to the saved one in every field, the nested
  directions, team and FAQ included. Saving a second program of the same name replaces
  the stored one: \<open>get_program\<close> returns the second, and, the other rows of the table
  being readable, \<open>get_all_programs\<close> holds exactly one record of that name, the second.
\<close>

theorem save_get_round_trip:
  assumes "faults db = []" and "json_round_trips rt p"
  shows "fst (save_program rt db p) \<and>
         fst (get_program rt (snd (save_program rt db p)) (name p)) = Some p \<and>
         (name p2 = name p \<and> json_round_trips rt p2 \<and>
          list_all (readable rt) (programs_tbl db) \<longrightarrow>
            fst (get_program rt (snd (save_program rt (snd (save_program rt db p)) p2)) (name p))
              = Some p2 \<and>
            filter (\<lambda>x. name x = name p)
              (fst (get_all_programs rt (snd (save_program rt (snd (save_program rt db p)) p2))))
              = [p2])"
proof (intro conjI impI)
  show "fst (save_program rt db p)"
    using assms(1) by (simp add: save_program_ok)
  show "fst (get_program rt (snd (save_program rt db p)) (name p)) = Some p"
    using assms by (rule get_program_after_save)
next
  assume h: "name p2 = name p \<and> json_round_trips rt p2 \<and>
             list_all (readable rt) (programs_tbl db)"
  define db1 where "db1 = snd (save_program rt db p)"
  have f1: "faults db1 = []"
    using assms(1) by (simp add: db1_def save_program_ok)
  from get_program_after_save [OF f1, of rt p2] h
  show "fst (get_program rt (snd (save_program rt (snd (save_program rt db p)) p2)) (name p))
          = Some p2"
    by (simp add: db1_def)
  define db2 where "db2 = snd (save_program rt (snd (save_program rt db p)) p2)"
  have tbl: "programs_tbl db2 =
      filter (\<lambda>r. row_name r \<noteq> name p) (programs_tbl db) @
        [program_row rt (programs_seq db + 2) p2]"
    and f2: "faults db2 = []"
    using table_after_two_saves [OF assms(1), of p2 p rt] h by (simp_all add: db2_def)
  have r2: "row_to_program rt (program_row rt (programs_seq db + 2) p2) = Inr p2"
    using h by (simp add: row_to_program_row)
  have "list_all (readable rt) (filter (\<lambda>r. row_name r \<noteq> name p) (programs_tbl db))"
    using h by (simp add: list_all_iff)
  moreover have "readable rt (program_row rt (programs_seq db + 2) p2)"
    using r2 by (simp add: readable_def)
  ultimately have all: "list_all (readable rt) (programs_tbl db2)"
    by (simp add: tbl)
  have "fst (get_all_programs rt db2) =
          map (\<lambda>row. projr (row_to_program rt row)) (programs_tbl db2)"
    using f2 programs_loop_readable [OF all, of "[]"]
    by (simp add: get_all_programs_def sqlite_connect_def)
  then have "filter (\<lambda>x. name x = name p) (fst (get_all_programs rt db2)) = [p2]"
    using h others_filtered [of rt "programs_tbl db" "name p"] r2
    by (simp add: tbl)
  then show "filter (\<lambda>x. name x = name p)
      (fst (get_all_programs rt (snd (save_program rt (snd (save_program rt db p)) p2)))) = [p2]"
    by (simp add: db2_def)
qed


text \<open>The two sample programs, on a new database and the JSON instance.\<close>

lemma first_fields_round_trip:
  "loads_basic (dumps_basic (directions program_first)) = Inr (directions program_first)"
  "loads_basic (dumps_basic (career_prospects program_first)) = Inr (career_prospects program_first)"
  "loads_basic (dumps_basic (partners program_first)) = Inr (partners program_first)"
  "loads_basic (dumps_basic (team program_first)) = Inr (team program_first)"
  "loads_basic (dumps_basic (admission_ways program_first)) = Inr (admission_ways program_first)"
  "loads_basic (dumps_basic (faq program_first)) = Inr (faq program_first)"
  "loads_basic (dumps_basic (exam_dates program_first)) = Inr (exam_dates program_first)"
  by code_simp+

lemma sample_round_trips:
  "json_round_trips rt_sample program_first"
  "json_round_trips rt_sample program_second"
proof -
  have sel: "json_loads rt_sample = loads_basic" "json_dumps rt_sample = dumps_basic"
    by (simp_all add: rt_sample_def)
  show "json_round_trips rt_sample program_first"
    by (simp add: json_round_trips_def sel first_fields_round_trip)
  have "loads_basic (dumps_basic (PList [])) = Inr (PList [])"
    by code_simp
  then show "json_round_trips rt_sample program_second"
    using first_fields_round_trip
    by (simp add: json_round_trips_def sel program_second_def)
qed

theorem save_get_round_trip_witness:
  "faults init_database = [] \<and>
   json_round_trips rt_sample program_first \<and>
   json_round_trips rt_sample program_second \<and>
   name program_second = name program_first \<and>
   description program_second \<noteq> description program_first \<and>
   fst (get_program rt_sample
          (snd (save_program rt_sample init_database program_first))
          (name program_first)) = Some program_first \<and>
   fst (get_program rt_sample
          (snd (save_program rt_sample
                  (snd (save_program rt_sample init_database program_first)) program_second))
          (name program_first)) = Some program_second \<and>
   filter (\<lambda>x. name x = name program_first)
     (fst (get_all_programs rt_sample
             (snd (save_program rt_sample
                     (snd (save_program rt_sample init_database program_first))
                     program_second)))) = [program_second]"
  using save_get_round_trip [of init_database rt_sample program_first program_second]
    sample_round_trips
  by (simp add: init_database_def program_second_def program_first_def ascii_def)

section \<open>Context serializer: the rendered context and its sub-blocks\<close>

text \<open>On well typed fields the dynamic operations of the serializer do not raise.\<close>

lemma dicts_as_values: "list_all is_dict vs \<Longrightarrow> vs = map PDict (map dict_of vs)"
proof (induction vs)
  case Nil
  then show ?case by simp
next
  case (Cons v vs)
  then show ?case by (cases v) simp_all
qed

lemma expect_strs_typed: "list_all is_str vs \<Longrightarrow> expect_strs vs = Inr (map str_of vs)"
proof (induction vs)
  case Nil
  then show ?case by simp
next
  case (Cons v vs)
  then show ?case by (cases v) (simp_all add: and_then_def)
qed

lemma py_join_typed:
  assumes "is_list_of is_str v"
  shows "py_join sep v = Inr (str_join sep (strs_of v))"
  using assms
  by (cases v) (simp_all add: py_join_def and_then_def expect_strs_typed strs_of_def)

lemma format_directions_dicts:
  "format_directions rt (PList (map PDict ds)) = Inr (directions_block rt ds)"
  by (simp add: format_directions_list directions_loop_dicts directions_block_def)

lemma format_faq_dicts:
  "format_faq rt (PList (map PDict qas)) = Inr (faq_block rt qas)"
  by (simp add: format_faq_list take_map faq_loop_dicts faq_block_def)

lemma format_directions_typed:
  assumes "is_list_of is_dict v"
  shows "format_directions rt v = Inr (directions_block rt (dicts_of v))"
proof -
  from assms obtain vs where v: "v = PList vs" and all: "list_all is_dict vs"
    by (cases v) simp_all
  from dicts_as_values [OF all] have vs: "vs = map PDict (map dict_of vs)" .
  from format_directions_dicts [of rt "map dict_of vs"] vs
  show ?thesis by (simp add: v dicts_of_def)
qed

lemma format_faq_typed:
  assumes "is_list_of is_dict v"
  shows "format_faq rt v = Inr (faq_block rt (dicts_of v))"
proof -
  from assms obtain vs where v: "v = PList vs" and all: "list_all is_dict vs"
    by (cases v) simp_all
  from dicts_as_values [OF all] have vs: "vs = map PDict (map dict_of vs)" .
  from format_faq_dicts [of rt "map dict_of vs"] vs
  show ?thesis by (simp add: v dicts_of_def)
qed

lemma program_block_typed:
  assumes "well_typed p"
  shows "program_block rt p = Inr (rendered_block rt p)"
  using assms
  by (simp add: well_typed_def program_block_def rendered_block_def and_then_def
      format_directions_typed format_faq_typed py_join_typed)

lemma context_loop_typed:
  assumes "list_all well_typed ps"
  shows "context_loop rt acc ps = Inr (acc @ concat (map (rendered_block rt) ps))"
  using assms
  by (induction ps arbitrary: acc) (simp_all add: program_block_typed)

text \<open>A rendered entry starts with \<open>-\<close> or \<open>Q\<close>, which no sentinel does.\<close>

lemma direction_text_head: "\<exists>t. direction_text rt d = 0x2D # t"
  by (simp add: direction_text_def ascii_def)

lemma qa_text_head: "\<exists>t. qa_text rt d = 0x51 # t"
  by (simp add: qa_text_def ascii_def)

lemma directions_block_head:
  assumes "ds \<noteq> []"
  shows "\<exists>t. directions_block rt ds = 0x2D # t"
proof -
  from assms obtain d rest where ds: "ds = d # rest" by (cases ds) simp_all
  from direction_text_head [of rt d] obtain t where "direction_text rt d = 0x2D # t" by blast
  with ds show ?thesis by (simp add: directions_block_def)
qed

lemma faq_block_head:
  assumes "qas \<noteq> []"
  shows "\<exists>t. faq_block rt qas = 0x51 # t"
proof -
  from assms obtain d rest where qas: "qas = d # rest" by (cases qas) simp_all
  from qa_text_head [of rt d] obtain t where "qa_text rt d = 0x51 # t" by blast
  with qas show ?thesis by (simp add: faq_block_def)
qed

lemma directions_block_sentinel: "directions_block rt ds = directions_not_found \<longleftrightarrow> ds = []"
proof (cases "ds = []")
  case True
  then show ?thesis by (simp add: directions_block_def)
next
  case False
  from directions_block_head [OF False, of rt] show ?thesis
    using False by (auto simp add: directions_not_found_def)
qed

lemma directions_block_not_empty: "directions_block rt ds \<noteq> []"
proof (cases "ds = []")
  case True
  then show ?thesis by (simp add: directions_block_def directions_not_found_def)
next
  case False
  from directions_block_head [OF False, of rt] show ?thesis by auto
qed

lemma faq_block_sentinel: "faq_block rt qas = faq_not_found \<longleftrightarrow> qas = []"
proof (cases "qas = []")
  case True
  then show ?thesis by (simp add: faq_block_def)
next
  case False
  from faq_block_head [OF False, of rt] show ?thesis
    using False by (auto simp add: faq_not_found_def)
qed

text \<open>
  Claim C8. For the programs that \<open>get_all_programs\<close> reads, each well typed, the text
  that \<open>get_programs_context\<close> returns is the concatenation, in the order read, of one
  labeled block per program, in which the directions sub-block stands between the
  directions label and the next label and the FAQ sub-block between the FAQ label and
  the record separator. The directions sub-block is the fixed sentinel exactly when the
  directions list is empty, and never the empty string; the FAQ sub-block is the FAQ
  sentinel exactly when the FAQ list is empty, and otherwise it renders the first five
  entries at most, in order, each as a question and answer pair. The sentinel is returned
  for the empty list only also when the entries of a list are not dicts.
\<close>

theorem context_sub_blocks:
  "(get_all_programs rt db = (programs, db') \<and> list_all well_typed programs \<longrightarrow>
      get_programs_context rt db = (Inr (concat (map (rendered_block rt) programs)), db')) \<and>
   (directions_block rt ds = directions_not_found \<longleftrightarrow> ds = []) \<and>
   directions_block rt ds \<noteq> [] \<and>
   (faq_block rt qas = faq_not_found \<longleftrightarrow> qas = []) \<and>
   (qas \<noteq> [] \<longrightarrow> faq_block rt qas = concat (map (qa_text rt) (take 5 qas))) \<and>
   (format_directions rt (PList vs) = Inr directions_not_found \<longleftrightarrow> vs = []) \<and>
   format_directions rt (PList vs) \<noteq> Inr [] \<and>
   (format_faq rt (PList vs) = Inr faq_not_found \<longleftrightarrow> vs = [])"
proof (intro conjI impI)
  assume "get_all_programs rt db = (programs, db') \<and> list_all well_typed programs"
  then show "get_programs_context rt db =
      (Inr (concat (map (rendered_block rt) programs)), db')"
    by (simp add: get_programs_context_def context_loop_typed)
next
  assume "qas \<noteq> []"
  then show "faq_block rt qas = concat (map (qa_text rt) (take 5 qas))"
    by (simp add: faq_block_def)
qed (rule directions_block_sentinel directions_block_not_empty faq_block_sentinel
      directions_sentinel_iff directions_never_empty faq_sentinel_iff)+

text \<open>The database of the two sample programs.\<close>

lemma db_two_tables:
  "programs_tbl db_two =
     [program_row rt_sample 1 program_bare, program_row rt_sample 2 program_full]"
  "faults db_two = []"
  by (simp_all add: db_two_def save_program_ok init_database_def program_bare_def
      program_full_def program_first_def ascii_def)

lemma more_round_trips:
  "json_round_trips rt_sample program_bare"
  "json_round_trips rt_sample program_full"
proof -
  have sel: "json_loads rt_sample = loads_basic" "json_dumps rt_sample = dumps_basic"
    by (simp_all add: rt_sample_def)
  have none: "loads_basic (dumps_basic (PList [])) = Inr (PList [])"
    by code_simp
  have six: "loads_basic (dumps_basic (PList (map PDict faq_six))) =
      Inr (PList (map PDict faq_six))"
    by code_simp
  show "json_round_trips rt_sample program_bare"
    using first_fields_round_trip none
    by (simp add: json_round_trips_def sel program_bare_def)
  show "json_round_trips rt_sample program_full"
    using first_fields_round_trip six
    by (simp add: json_round_trips_def sel program_full_def)
qed

lemma db_two_programs:
  "get_all_programs rt_sample db_two = ([program_bare, program_full], db_two)"
  by (simp add: get_all_programs_def sqlite_connect_def db_two_tables
      row_to_program_row more_round_trips)

lemma samples_well_typed: "list_all well_typed [program_bare, program_full]"
  by (simp add: well_typed_def program_bare_def program_full_def program_first_def
      faq_six_def)

theorem context_sub_blocks_witness:
  "get_all_programs rt_sample db_two = ([program_bare, program_full], db_two) \<and>
   list_all well_typed [program_bare, program_full] \<and>
   directions program_bare = PList [] \<and> faq program_bare = PList [] \<and>
   length (dicts_of (directions program_full)) = 1 \<and>
   length (dicts_of (faq program_full)) = 6 \<and>
   get_programs_context rt_sample db_two =
     (Inr (label_program @ ascii ''AI'' @
           label_url @ ascii ''https://abit.itmo.ru/program/master/ai'' @
           label_institute @ ascii ''ICS'' @ label_duration @ ascii ''2'' @
           label_language @ ascii ''ru'' @ label_cost @ ascii ''599000'' @
           label_description @ ascii ''first'' @
           label_directions @ directions_not_found @
           label_career_prospects @ ascii ''Data Engineer'' @
           label_partners @ ascii ''X5 Group'' @
           label_admission_ways @
           label_exam_dates @ ascii ''29.07.2025, 11:00'' @
           label_faq @ faq_not_found @ record_separator @
           label_program @ ascii ''AI Product'' @
           label_url @ ascii ''https://abit.itmo.ru/program/master/ai'' @
           label_institute @ ascii ''ICS'' @ label_duration @ ascii ''2'' @
           label_language @ ascii ''ru'' @ label_cost @ ascii ''599000'' @
           label_description @ ascii ''first'' @
           label_directions @
           ascii ''- Informatics (09.04.01)'' @ [0xA] @
           label_budget @ ascii ''51, '' @ label_target @ ascii ''4, '' @
           label_contract @ ascii ''55'' @ [0xA] @
           label_career_prospects @ ascii ''Data Engineer'' @
           label_partners @ ascii ''X5 Group'' @
           label_admission_ways @
           label_exam_dates @ ascii ''29.07.2025, 11:00'' @
           label_faq @
           ascii ''Q: Q1'' @ [0xA] @ ascii ''A: A1'' @ [0xA, 0xA] @
           ascii ''Q: Q2'' @ [0xA] @ ascii ''A: A2'' @ [0xA, 0xA] @
           ascii ''Q: Q3'' @ [0xA] @ ascii ''A: A3'' @ [0xA, 0xA] @
           ascii ''Q: Q4'' @ [0xA] @ ascii ''A: A4'' @ [0xA, 0xA] @
           ascii ''Q: Q5'' @ [0xA] @ ascii ''A: A5'' @ [0xA, 0xA] @
           record_separator),
      db_two)"
proof -
  have blocks:
    "rendered_block rt_sample program_bare =
       label_program @ ascii ''AI'' @
       label_url @ ascii ''https://abit.itmo.ru/program/master/ai'' @
       label_institute @ ascii ''ICS'' @ label_duration @ ascii ''2'' @
       label_language @ ascii ''ru'' @ label_cost @ ascii ''599000'' @
       label_description @ ascii ''first'' @
       label_directions @ directions_not_found @
       label_career_prospects @ ascii ''Data Engineer'' @
       label_partners @ ascii ''X5 Group'' @
       label_admission_ways @
       label_exam_dates @ ascii ''29.07.2025, 11:00'' @
       label_faq @ faq_not_found @ record_separator"
    "rendered_block rt_sample program_full =
       label_program @ ascii ''AI Product'' @
       label_url @ ascii ''https://abit.itmo.ru/program/master/ai'' @
       label_institute @ ascii ''ICS'' @ label_duration @ ascii ''2'' @
       label_language @ ascii ''ru'' @ label_cost @ ascii ''599000'' @
       label_description @ ascii ''first'' @
       label_directions @
       ascii ''- Informatics (09.04.01)'' @ [0xA] @
       label_budget @ ascii ''51, '' @ label_target @ ascii ''4, '' @
       label_contract @ ascii ''55'' @ [0xA] @
       label_career_prospects @ ascii ''Data Engineer'' @
       label_partners @ ascii ''X5 Group'' @
       label_admission_ways @
       label_exam_dates @ ascii ''29.07.2025, 11:00'' @
       label_faq @
       ascii ''Q: Q1'' @ [0xA] @ ascii ''A: A1'' @ [0xA, 0xA] @
       ascii ''Q: Q2'' @ [0xA] @ ascii ''A: A2'' @ [0xA, 0xA] @
       ascii ''Q: Q3'' @ [0xA] @ ascii ''A: A3'' @ [0xA, 0xA] @
       ascii ''Q: Q4'' @ [0xA] @ ascii ''A: A4'' @ [0xA, 0xA] @
       ascii ''Q: Q5'' @ [0xA] @ ascii ''A: A5'' @ [0xA, 0xA] @
       record_separator"
    by (simp_all add: rendered_block_def directions_block_def faq_block_def dicts_of_def
        strs_of_def program_bare_def program_full_def program_first_def faq_six_def
        direction_coded_def direction_text_def code_text_def qa_text_def entry_text_def
        py_str_def ascii_def int_str_def)
  have sizes: "directions program_bare = PList []" "faq program_bare = PList []"
    "length (dicts_of (directions program_full)) = 1"
    "length (dicts_of (faq program_full)) = 6"
    by (simp_all add: program_bare_def program_full_def program_first_def faq_six_def
        dicts_of_def)
  from context_sub_blocks [of rt_sample db_two "[program_bare, program_full]" db_two]
    db_two_programs samples_well_typed
  have "get_programs_context rt_sample db_two =
      (Inr (concat (map (rendered_block rt_sample) [program_bare, program_full])), db_two)"
    by blast
  then show ?thesis
    using db_two_programs samples_well_typed sizes
    by (simp add: blocks)
qed

end
